theory Spec2Isabelle
  imports Complex_Main
begin

section \<open>Python and NumPy values\<close>

text \<open>
  Exceptions of the Python code are values of \<open>pyexc\<close>; a computation that may raise
  returns \<open>pyexc + 'a\<close> with \<open>Inl\<close> for the exception.
\<close>

datatype pyexc = ValueError | UnpicklingError | KeyError | IndexError | RepositoryError

text \<open>
  A NumPy floating-point scalar. Finite arithmetic is idealised as exact arithmetic on
  \<open>real\<close>; the values that a division by zero produces (\<open>nan\<close>, \<open>inf\<close>, \<open>-inf\<close>, with a
  warning and no exception) are kept, since the comparisons of the matcher see them.
\<close>

datatype npfloat = NaN | NegInf | Fin real | PosInf

text \<open>The operator \<open>>\<close> on floats: every comparison with \<open>nan\<close> is false.\<close>

fun np_gt :: "npfloat \<Rightarrow> npfloat \<Rightarrow> bool" where
  "np_gt (Fin a) (Fin b) = (b < a)"
| "np_gt PosInf (Fin b) = True"
| "np_gt PosInf NegInf = True"
| "np_gt (Fin a) NegInf = True"
| "np_gt _ _ = False"

text \<open>The operator \<open>/\<close> on NumPy float scalars.\<close>

definition np_divide :: "real \<Rightarrow> real \<Rightarrow> npfloat" where
  "np_divide x y =
     (if y \<noteq> 0 then Fin (x / y)
      else if x = 0 then NaN
      else if 0 < x then PosInf
      else NegInf)"

text \<open>
  An embedding is a one-dimensional float array. \<open>np.dot\<close> of two one-dimensional arrays
  is their inner product and raises \<open>ValueError\<close> when the lengths differ.
\<close>

type_synonym embedding = "real list"

definition np_dot :: "embedding \<Rightarrow> embedding \<Rightarrow> pyexc + real" where
  "np_dot a b =
     (if length a = length b then Inr (\<Sum>(x, y) \<leftarrow> zip a b. x * y)
      else Inl ValueError)"

definition np_linalg_norm :: "embedding \<Rightarrow> real" where
  "np_linalg_norm a = sqrt (\<Sum>x \<leftarrow> a. x * x)"

text \<open>Elementwise difference of two arrays of the same length.\<close>

definition np_subtract :: "embedding \<Rightarrow> embedding \<Rightarrow> embedding" where
  "np_subtract a b = map (\<lambda>(x, y). x - y) (zip a b)"

section \<open>Similarity scores\<close>

text \<open>
  \<open>np.dot(a, b) / (np.linalg.norm(a) * np.linalg.norm(b))\<close>, as written in
  \<open>detect_face_realtime\<close> (InsightFace branch) and in \<open>check_face_exists\<close>. The dot product
  is evaluated first, so a length mismatch raises before any norm is taken.
\<close>

definition cosine_similarity :: "embedding \<Rightarrow> embedding \<Rightarrow> pyexc + npfloat" where
  "cosine_similarity a b =
     (case np_dot a b of
        Inl e \<Rightarrow> Inl e
      | Inr d \<Rightarrow> Inr (np_divide d (np_linalg_norm a * np_linalg_norm b)))"

text \<open>
  The OpenCV fallback branch: \<open>distance = np.linalg.norm(embedding - stored_embedding)\<close>,
  \<open>similarity = 1.0 / (1.0 + distance)\<close>. It is only evaluated on arrays of equal length.
\<close>

definition distance_similarity :: "embedding \<Rightarrow> embedding \<Rightarrow> npfloat" where
  "distance_similarity a b = np_divide 1 (1 + np_linalg_norm (np_subtract a b))"

section \<open>Thresholds\<close>

text \<open>
  \<open>threshold = 0.5\<close> in the InsightFace branch and \<open>threshold = 0.8\<close> in the OpenCV branch of
  \<open>detect_face_realtime\<close>; \<open>similarity_threshold=0.6\<close> is what the registration page passes
  to \<open>check_face_exists\<close>.
\<close>

definition threshold_insightface :: real where
  "threshold_insightface = 0.5"

definition threshold_opencv :: real where
  "threshold_opencv = 0.8"

definition registration_similarity_threshold :: real where
  "registration_similarity_threshold = 0.6"

section \<open>The gallery scan of \<open>detect_face_realtime\<close>\<close>

text \<open>
  \<open>stored_embeddings\<close> is a list of tuples \<open>(user_id, user_data, embedding)\<close>, or \<open>None\<close> (the
  default). A match is the tuple \<open>(user_id, user_data, similarity)\<close>.
\<close>

type_synonym ('u, 'd) gallery = "('u \<times> 'd \<times> embedding) list"

type_synonym ('u, 'd) best = "('u \<times> 'd \<times> npfloat) option \<times> npfloat"

text \<open>
  The \<open>for\<close> loop of the InsightFace branch; the state is \<open>(best_match, best_score)\<close>. An
  exception of \<open>np.dot\<close> is not caught and ends the loop.
\<close>

fun scan_insightface ::
  "embedding \<Rightarrow> ('u, 'd) gallery \<Rightarrow> ('u, 'd) best \<Rightarrow> pyexc + ('u, 'd) best" where
  "scan_insightface embedding [] st = Inr st"
| "scan_insightface embedding ((user_id, user_data, stored_embedding) # rest)
       (best_match, best_score) =
     (case cosine_similarity embedding stored_embedding of
        Inl e \<Rightarrow> Inl e
      | Inr similarity \<Rightarrow>
          if np_gt similarity (Fin threshold_insightface) \<and> np_gt similarity best_score
          then scan_insightface embedding rest
                 (Some (user_id, user_data, similarity), similarity)
          else scan_insightface embedding rest (best_match, best_score))"

text \<open>
  The \<open>for\<close> loop of the OpenCV branch: an entry of another length is passed over.
\<close>

fun scan_opencv ::
  "embedding \<Rightarrow> ('u, 'd) gallery \<Rightarrow> ('u, 'd) best \<Rightarrow> ('u, 'd) best" where
  "scan_opencv embedding [] st = st"
| "scan_opencv embedding ((user_id, user_data, stored_embedding) # rest)
       (best_match, best_score) =
     (if length embedding = length stored_embedding
      then (let similarity = distance_similarity embedding stored_embedding
            in if np_gt similarity (Fin threshold_opencv) \<and> np_gt similarity best_score
               then scan_opencv embedding rest
                      (Some (user_id, user_data, similarity), similarity)
               else scan_opencv embedding rest (best_match, best_score))
      else scan_opencv embedding rest (best_match, best_score))"

text \<open>
  \<open>if stored_embeddings:\<close> is false for \<open>None\<close> and for the empty list. The scan starts
  from \<open>best_match = None\<close>, \<open>best_score = -1\<close>; \<open>match\<close> is \<open>best_match\<close> when one was
  found and stays \<open>None\<close> otherwise.
\<close>

definition match_insightface ::
  "embedding \<Rightarrow> ('u, 'd) gallery option \<Rightarrow> pyexc + ('u \<times> 'd \<times> npfloat) option" where
  "match_insightface embedding stored_embeddings =
     (case stored_embeddings of
        None \<Rightarrow> Inr None
      | Some g \<Rightarrow>
          if g = [] then Inr None
          else (case scan_insightface embedding g (None, Fin (- 1)) of
                  Inl e \<Rightarrow> Inl e
                | Inr (best_match, best_score) \<Rightarrow> Inr best_match))"

definition match_opencv ::
  "embedding \<Rightarrow> ('u, 'd) gallery option \<Rightarrow> ('u \<times> 'd \<times> npfloat) option" where
  "match_opencv embedding stored_embeddings =
     (case stored_embeddings of
        None \<Rightarrow> None
      | Some g \<Rightarrow>
          if g = [] then None
          else fst (scan_opencv embedding g (None, Fin (- 1))))"

section \<open>The duplicate guard \<open>check_face_exists\<close>\<close>

text \<open>
  A stored embedding is a pickled blob; \<open>pickle.loads\<close> raises on a blob that is not a
  pickle. A user document has an \<open>_id\<close>, and may lack the keys \<open>name\<close> and
  \<open>face_embedding\<close>.
\<close>

datatype blob = Pickled embedding | Corrupt

fun pickle_loads :: "blob \<Rightarrow> pyexc + embedding" where
  "pickle_loads (Pickled e) = Inr e"
| "pickle_loads Corrupt = Inl UnpicklingError"

record user_doc =
  doc_id :: string
  doc_name :: "string option"
  doc_face_embedding :: "blob option"

record user_info =
  info_id :: string
  info_name :: string
  info_similarity :: npfloat

text \<open>
  The body of the \<open>try\<close> block after the users were fetched: the first user whose
  similarity exceeds the threshold is returned at once.
\<close>

fun scan_users ::
  "embedding \<Rightarrow> real \<Rightarrow> user_doc list \<Rightarrow> pyexc + (bool \<times> user_info option)" where
  "scan_users face_embedding similarity_threshold [] = Inr (False, None)"
| "scan_users face_embedding similarity_threshold (user # users) =
     (case doc_face_embedding user of
        None \<Rightarrow> scan_users face_embedding similarity_threshold users
      | Some b \<Rightarrow>
          (case pickle_loads b of
             Inl e \<Rightarrow> Inl e
           | Inr existing_embedding \<Rightarrow>
               (case cosine_similarity existing_embedding face_embedding of
                  Inl e \<Rightarrow> Inl e
                | Inr similarity \<Rightarrow>
                    if np_gt similarity (Fin similarity_threshold)
                    then (case doc_name user of
                            None \<Rightarrow> Inl KeyError
                          | Some n \<Rightarrow>
                              Inr (True, Some \<lparr>info_id = doc_id user, info_name = n,
                                               info_similarity = similarity\<rparr>))
                    else scan_users face_embedding similarity_threshold users)))"

text \<open>
  \<open>check_face_exists\<close>: \<open>fetched\<close> is the outcome of \<open>list(self.users_collection.find({}))\<close>,
  which may itself raise. The handler \<open>except Exception\<close> logs and returns
  \<open>(False, None)\<close>.
\<close>

definition check_face_exists ::
  "pyexc + user_doc list \<Rightarrow> embedding \<Rightarrow> real \<Rightarrow> bool \<times> user_info option" where
  "check_face_exists fetched face_embedding similarity_threshold =
     (case fetched of
        Inl e \<Rightarrow> (False, None)
      | Inr users \<Rightarrow>
          (case scan_users face_embedding similarity_threshold users of
             Inl e \<Rightarrow> (False, None)
           | Inr r \<Rightarrow> r))"

section \<open>Images, the external libraries and the two backends\<close>

text \<open>
  A frame is a NumPy array that OpenCV reads and writes. Its pixels are not inspected by
  the code; the operations of NumPy and OpenCV on frames are parameters of the model:
  \<open>image.shape\<close> (height, width), the slice \<open>image[r0:r1, c0:c1]\<close>, \<open>cv2.rectangle\<close>,
  \<open>cv2.cvtColor(., COLOR_BGR2GRAY)\<close>, \<open>cv2.resize\<close>, \<open>flatten\<close> and the static method
  \<open>encode_image_to_base64\<close>.
\<close>

type_synonym color = "nat \<times> nat \<times> nat"

record 'img cv2 =
  cv_shape :: "'img \<Rightarrow> int \<times> int"
  cv_slice :: "'img \<Rightarrow> int \<Rightarrow> int \<Rightarrow> int \<Rightarrow> int \<Rightarrow> 'img"
  cv_rectangle :: "'img \<Rightarrow> int \<times> int \<Rightarrow> int \<times> int \<Rightarrow> color \<Rightarrow> int \<Rightarrow> 'img"
  cv_cvtColor_gray :: "'img \<Rightarrow> 'img"
  cv_resize :: "'img \<Rightarrow> int \<times> int \<Rightarrow> 'img"
  cv_flatten :: "'img \<Rightarrow> real list"
  encode_image_to_base64 :: "'img \<Rightarrow> string option"

text \<open>
  A face found by InsightFace has a float bounding box \<open>(x0, y0, x1, y1)\<close> and an
  embedding; a face found by the Haar cascade is a box \<open>(x, y, w, h)\<close> of integers.
\<close>

record if_face =
  face_bbox :: "real \<times> real \<times> real \<times> real"
  face_embedding :: embedding

type_synonym cv_face = "int \<times> int \<times> int \<times> int"

text \<open>
  \<open>FaceProcessor\<close>: \<open>use_insightface\<close> with \<open>self.face_app.get\<close>, or the fallback with
  \<open>self.face_cascade.detectMultiScale(., 1.3, 5)\<close>.
\<close>

datatype 'img face_processor =
    InsightFace "'img \<Rightarrow> if_face list"
  | OpenCV "'img \<Rightarrow> cv_face list"

text \<open>\<open>astype(int)\<close> truncates towards zero.\<close>

definition astype_int :: "real \<Rightarrow> int" where
  "astype_int r = (if 0 \<le> r then \<lfloor>r\<rfloor> else \<lceil>r\<rceil>)"

text \<open>
  \<open>sorted(xs, key=key, reverse=True)\<close>: descending by key and stable, so that elements with
  equal keys keep their original order. CPython reverses the list, sorts it stably in
  ascending order and reverses the result.
\<close>

definition py_sorted_reverse :: "('a \<Rightarrow> 'k::linorder) \<Rightarrow> 'a list \<Rightarrow> 'a list" where
  "py_sorted_reverse key xs = rev (sort_key key (rev xs))"

text \<open>\<open>xs[0]\<close> raises \<open>IndexError\<close> on the empty list.\<close>

definition first_item :: "'a list \<Rightarrow> pyexc + 'a" where
  "first_item xs = (case xs of [] \<Rightarrow> Inl IndexError | x # _ \<Rightarrow> Inr x)"

text \<open>The sort keys of \<open>get_face_embedding\<close>.\<close>

definition area_insightface :: "if_face \<Rightarrow> real" where
  "area_insightface x = (case face_bbox x of (x0, y0, x1, y1) \<Rightarrow> (x1 - x0) * (y1 - y0))"

definition area_opencv :: "cv_face \<Rightarrow> int" where
  "area_opencv x = (case x of (x0, y0, w, h) \<Rightarrow> w * h)"

text \<open>
  The crop \<open>image[max(0, bbox[1]):min(bbox[3], image.shape[0]),
  max(0, bbox[0]):min(bbox[2], image.shape[1])]\<close> of the InsightFace branches.
\<close>

definition crop_bbox :: "'img cv2 \<Rightarrow> 'img \<Rightarrow> int \<times> int \<times> int \<times> int \<Rightarrow> 'img" where
  "crop_bbox cv img bbox =
     (case bbox of (b0, b1, b2, b3) \<Rightarrow>
        cv_slice cv img (max 0 b1) (min b3 (fst (cv_shape cv img)))
          (max 0 b0) (min b2 (snd (cv_shape cv img))))"

definition bbox_astype_int :: "real \<times> real \<times> real \<times> real \<Rightarrow> int \<times> int \<times> int \<times> int" where
  "bbox_astype_int b =
     (case b of (x0, y0, x1, y1) \<Rightarrow>
        (astype_int x0, astype_int y0, astype_int x1, astype_int y1))"

text \<open>
  The simplified embedding of the fallback: \<open>cv2.resize(face, (50, 50)).flatten() / 255.0\<close>.
\<close>

definition fallback_embedding :: "'img cv2 \<Rightarrow> 'img \<Rightarrow> embedding" where
  "fallback_embedding cv face_image =
     map (\<lambda>v. v / 255) (cv_flatten cv (cv_resize cv face_image (50, 50)))"

section \<open>\<open>get_face_embedding\<close>\<close>

text \<open>
  The result is the tuple \<open>(face_embedding, face_image, status, message)\<close>.
\<close>

type_synonym 'img extraction = "embedding option \<times> 'img option \<times> bool \<times> string"

definition get_face_embedding ::
  "'img cv2 \<Rightarrow> 'img face_processor \<Rightarrow> 'img \<Rightarrow> pyexc + 'img extraction" where
  "get_face_embedding cv self img =
     (case self of
        InsightFace face_app_get \<Rightarrow>
          (let faces = face_app_get img in
           if length faces = 0
           then Inr (None, None, False, ''No face detected in the image'')
           else
             (let faces = (if length faces > 1
                           then py_sorted_reverse area_insightface faces else faces)
              in case first_item faces of
                   Inl e \<Rightarrow> Inl e
                 | Inr face \<Rightarrow>
                     (let embedding = face_embedding face;
                          bbox = bbox_astype_int (face_bbox face);
                          face_image = crop_bbox cv img bbox
                      in Inr (Some embedding, Some face_image, True,
                              ''Face detected successfully''))))
      | OpenCV detectMultiScale \<Rightarrow>
          (let gray = cv_cvtColor_gray cv img;
               faces = detectMultiScale gray in
           if length faces = 0
           then Inr (None, None, False, ''No face detected in the image'')
           else
             (let faces = (if length faces > 1
                           then py_sorted_reverse area_opencv faces else faces)
              in case first_item faces of
                   Inl e \<Rightarrow> Inl e
                 | Inr (x, y, w, h) \<Rightarrow>
                     (let face_image = cv_slice cv img y (y + h) x (x + w);
                          embedding = fallback_embedding cv face_image
                      in Inr (Some embedding, Some face_image, True,
                              ''Face detected (using OpenCV fallback)'')))))"

section \<open>\<open>detect_face_realtime\<close>\<close>

text \<open>
  Frames are mutable arrays, so they live in a store and are passed by reference: a
  reference is an index into the store. \<open>image.copy()\<close> allocates a new array with the
  same contents; \<open>cv2.rectangle(display_image, ...)\<close> overwrites the array that
  \<open>display_image\<close> refers to.
\<close>

type_synonym 'img store = "'img list"

type_synonym ref = nat

definition np_copy :: "'img store \<Rightarrow> ref \<Rightarrow> 'img store \<times> ref" where
  "np_copy s r = (s @ [s ! r], length s)"

definition rectangle_inplace ::
  "'img cv2 \<Rightarrow> 'img store \<Rightarrow> ref \<Rightarrow> int \<times> int \<Rightarrow> int \<times> int \<Rightarrow> color \<Rightarrow> int \<Rightarrow> 'img store" where
  "rectangle_inplace cv s r pt1 pt2 col thickness =
     s[r := cv_rectangle cv (s ! r) pt1 pt2 col thickness]"

text \<open>The dictionary \<open>face_data\<close> appended to \<open>matches\<close> for each face.\<close>

record ('u, 'd) face_data =
  fd_bbox :: "int list"
  fd_match :: "'d option"
  fd_user_id :: "'u option"
  fd_confidence :: npfloat
  fd_recognized :: bool
  fd_face_image :: "string option"

text \<open>
  What both branches build from \<open>match\<close>: \<open>color\<close> is red \<open>(0, 0, 255)\<close> by default and
  green \<open>(0, 255, 0)\<close> when a match was found; \<open>confidence\<close> is \<open>0\<close> by default and the
  similarity of the match otherwise.
\<close>

definition color_of :: "('u \<times> 'd \<times> npfloat) option \<Rightarrow> color" where
  "color_of match = (case match of None \<Rightarrow> (0, 0, 255) | Some m \<Rightarrow> (0, 255, 0))"

definition make_face_data ::
  "int list \<Rightarrow> ('u \<times> 'd \<times> npfloat) option \<Rightarrow> string option \<Rightarrow> ('u, 'd) face_data" where
  "make_face_data bbox match face_image =
     \<lparr>fd_bbox = bbox,
      fd_match = (case match of None \<Rightarrow> None | Some (user_id, user_data, sim) \<Rightarrow> Some user_data),
      fd_user_id = (case match of None \<Rightarrow> None | Some (user_id, user_data, sim) \<Rightarrow> Some user_id),
      fd_confidence = (case match of None \<Rightarrow> Fin 0 | Some (user_id, user_data, sim) \<Rightarrow> sim),
      fd_recognized = (match \<noteq> None),
      fd_face_image = face_image\<rparr>"

text \<open>
  The loop over the faces of the InsightFace branch. \<open>image\<close> and \<open>display_image\<close> are
  references; the loop state is the store and the list \<open>matches\<close>. An exception of the
  gallery scan leaves the loop with the store as it is at that point.
\<close>

fun faces_insightface ::
  "'img cv2 \<Rightarrow> ref \<Rightarrow> ref \<Rightarrow> ('u, 'd) gallery option \<Rightarrow> if_face list \<Rightarrow>
     'img store \<Rightarrow> ('u, 'd) face_data list \<Rightarrow> 'img store \<times> (pyexc + ('u, 'd) face_data list)" where
  "faces_insightface cv image_ref display_image stored_embeddings [] s matches = (s, Inr matches)"
| "faces_insightface cv image_ref display_image stored_embeddings (face # rest) s matches =
     (case bbox_astype_int (face_bbox face) of (b0, b1, b2, b3) \<Rightarrow>
        (case match_insightface (face_embedding face) stored_embeddings of
           Inl e \<Rightarrow> (s, Inl e)
         | Inr match \<Rightarrow>
             (let s' = rectangle_inplace cv s display_image
                         (max 0 b0, max 0 b1)
                         (min b2 (snd (cv_shape cv (s ! display_image))),
                          min b3 (fst (cv_shape cv (s ! display_image))))
                         (color_of match) 2;
                  face_crop = crop_bbox cv (s' ! image_ref) (b0, b1, b2, b3);
                  face_data = make_face_data [b0, b1, b2, b3] match
                                (encode_image_to_base64 cv face_crop)
              in faces_insightface cv image_ref display_image stored_embeddings rest s'
                   (matches @ [face_data]))))"

text \<open>The loop over the faces of the OpenCV branch.\<close>

fun faces_opencv ::
  "'img cv2 \<Rightarrow> ref \<Rightarrow> ref \<Rightarrow> ('u, 'd) gallery option \<Rightarrow> cv_face list \<Rightarrow>
     'img store \<Rightarrow> ('u, 'd) face_data list \<Rightarrow> 'img store \<times> (pyexc + ('u, 'd) face_data list)" where
  "faces_opencv cv image_ref display_image stored_embeddings [] s matches = (s, Inr matches)"
| "faces_opencv cv image_ref display_image stored_embeddings ((x, y, w, h) # rest) s matches =
     (let face_crop = cv_slice cv (s ! image_ref) y (y + h) x (x + w);
          embedding = fallback_embedding cv face_crop;
          match = match_opencv embedding stored_embeddings;
          s' = rectangle_inplace cv s display_image (x, y) (x + w, y + h) (color_of match) 2;
          face_data = make_face_data [x, y, x + w, y + h] match
                        (encode_image_to_base64 cv face_crop)
      in faces_opencv cv image_ref display_image stored_embeddings rest s' (matches @ [face_data]))"

text \<open>
  \<open>detect_face_realtime(image, stored_embeddings)\<close> returns the reference
  \<open>display_image\<close> and \<open>matches\<close>; the model returns the store after the call as well.
\<close>

definition detect_face_realtime ::
  "'img cv2 \<Rightarrow> 'img face_processor \<Rightarrow> 'img store \<Rightarrow> ref \<Rightarrow> ('u, 'd) gallery option \<Rightarrow>
     'img store \<times> (pyexc + ref \<times> ('u, 'd) face_data list)" where
  "detect_face_realtime cv self s image_ref stored_embeddings =
     (case np_copy s image_ref of (s0, display_image) \<Rightarrow>
        (case self of
           InsightFace face_app_get \<Rightarrow>
             (case faces_insightface cv image_ref display_image stored_embeddings
                     (face_app_get (s0 ! image_ref)) s0 [] of
                (s1, Inl e) \<Rightarrow> (s1, Inl e)
              | (s1, Inr matches) \<Rightarrow> (s1, Inr (display_image, matches)))
         | OpenCV detectMultiScale \<Rightarrow>
             (case faces_opencv cv image_ref display_image stored_embeddings
                     (detectMultiScale (cv_cvtColor_gray cv (s0 ! image_ref))) s0 [] of
                (s1, Inl e) \<Rightarrow> (s1, Inl e)
              | (s1, Inr matches) \<Rightarrow> (s1, Inr (display_image, matches)))))"

text \<open>
  The annotation as the specification describes it: for each outcome in turn, a
  rectangle at the face's region, in one colour when it is recognized and in another when
  it is not. The two functions differ in the corners, which the InsightFace branch clamps
  to the frame.
\<close>

definition marker_color :: "bool \<Rightarrow> color" where
  "marker_color recognized = (if recognized then (0, 255, 0) else (0, 0, 255))"

fun draw_markers_insightface :: "'img cv2 \<Rightarrow> 'img \<Rightarrow> ('u, 'd) face_data list \<Rightarrow> 'img" where
  "draw_markers_insightface cv img [] = img"
| "draw_markers_insightface cv img (fd # fds) =
     draw_markers_insightface cv
       (cv_rectangle cv img
          (max 0 (fd_bbox fd ! 0), max 0 (fd_bbox fd ! 1))
          (min (fd_bbox fd ! 2) (snd (cv_shape cv img)),
           min (fd_bbox fd ! 3) (fst (cv_shape cv img)))
          (marker_color (fd_recognized fd)) 2)
       fds"

fun draw_markers_opencv :: "'img cv2 \<Rightarrow> 'img \<Rightarrow> ('u, 'd) face_data list \<Rightarrow> 'img" where
  "draw_markers_opencv cv img [] = img"
| "draw_markers_opencv cv img (fd # fds) =
     draw_markers_opencv cv
       (cv_rectangle cv img
          (fd_bbox fd ! 0, fd_bbox fd ! 1) (fd_bbox fd ! 2, fd_bbox fd ! 3)
          (marker_color (fd_recognized fd)) 2)
       fds"

text \<open>
  The outcome that the specification gives for one detected face: its region, whether it
  was recognized, the identity or none, the confidence and the encoded crop. \<open>best\<close> is the
  result of the gallery scan for the face.
\<close>

definition outcome_of ::
  "int list \<Rightarrow> ('u \<times> 'd \<times> npfloat) option \<Rightarrow> string option \<Rightarrow> ('u, 'd) face_data" where
  "outcome_of region best face_image =
     \<lparr>fd_bbox = region,
      fd_match = map_option (\<lambda>m. fst (snd m)) best,
      fd_user_id = map_option fst best,
      fd_confidence = (if best = None then Fin 0 else snd (snd (the best))),
      fd_recognized = (best \<noteq> None),
      fd_face_image = face_image\<rparr>"

text \<open>
  The region of a face: the truncated bounding box \<open>bbox.tolist()\<close> of InsightFace, and
  \<open>[x, y, x+w, y+h]\<close> for a box of the Haar cascade.
\<close>

definition region_insightface :: "if_face \<Rightarrow> int list" where
  "region_insightface face =
     (case bbox_astype_int (face_bbox face) of (b0, b1, b2, b3) \<Rightarrow> [b0, b1, b2, b3])"

definition region_opencv :: "cv_face \<Rightarrow> int list" where
  "region_opencv face = (case face of (x, y, w, h) \<Rightarrow> [x, y, x + w, y + h])"

text \<open>
  The outcome of one face of the frame \<open>img\<close> against the gallery. With InsightFace the
  gallery scan may raise, and then there is no outcome.
\<close>

definition outcome_insightface ::
  "'img cv2 \<Rightarrow> 'img \<Rightarrow> ('u, 'd) gallery option \<Rightarrow> if_face \<Rightarrow> pyexc + ('u, 'd) face_data" where
  "outcome_insightface cv img se face =
     (case match_insightface (face_embedding face) se of
        Inl e \<Rightarrow> Inl e
      | Inr best \<Rightarrow>
          Inr (outcome_of (region_insightface face) best
                 (encode_image_to_base64 cv
                    (crop_bbox cv img (bbox_astype_int (face_bbox face))))))"

definition outcome_opencv ::
  "'img cv2 \<Rightarrow> 'img \<Rightarrow> ('u, 'd) gallery option \<Rightarrow> cv_face \<Rightarrow> ('u, 'd) face_data" where
  "outcome_opencv cv img se face =
     (case face of (x, y, w, h) \<Rightarrow>
        outcome_of (region_opencv face)
          (match_opencv (fallback_embedding cv (cv_slice cv img y (y + h) x (x + w))) se)
          (encode_image_to_base64 cv (cv_slice cv img y (y + h) x (x + w))))"

text \<open>
  A small instance of the libraries for evaluating the model: a frame is the list of the
  rectangles drawn on it, on a canvas of 480 rows and 640 columns; a slice and a resized
  frame keep the list, every frame flattens to the two bytes \<open>255, 0\<close>, and no frame is
  encoded.
\<close>

type_synonym toy_image = "((int \<times> int) \<times> (int \<times> int) \<times> color) list"

definition toy_cv :: "toy_image cv2" where
  "toy_cv =
     \<lparr>cv_shape = (\<lambda>i. (480, 640)),
      cv_slice = (\<lambda>i r0 r1 c0 c1. i),
      cv_rectangle = (\<lambda>i pt1 pt2 col thickness. i @ [(pt1, pt2, col)]),
      cv_cvtColor_gray = (\<lambda>i. i),
      cv_resize = (\<lambda>i size. i),
      cv_flatten = (\<lambda>i. [255, 0]),
      encode_image_to_base64 = (\<lambda>i. None)\<rparr>"

section \<open>Cosine similarity as the specification states it\<close>

text \<open>
  The specification's formula \<open>dot(a,b) / (\<parallel>a\<parallel> \<cdot> \<parallel>b\<parallel>)\<close> on real vectors, written with
  indexed sums; the code's scores are compared with it below.
\<close>

definition spec_dot :: "real list \<Rightarrow> real list \<Rightarrow> real" where
  "spec_dot a b = (\<Sum>i < length a. a ! i * b ! i)"

definition spec_norm :: "real list \<Rightarrow> real" where
  "spec_norm a = sqrt (\<Sum>i < length a. (a ! i)\<^sup>2)"

definition spec_cosine :: "real list \<Rightarrow> real list \<Rightarrow> real" where
  "spec_cosine a b = spec_dot a b / (spec_norm a * spec_norm b)"

section \<open>Facts about float comparison\<close>

lemma np_gt_irrefl: "\<not> np_gt a a"
  by (cases a) simp_all

lemma np_gt_trans: "np_gt a b \<Longrightarrow> np_gt b c \<Longrightarrow> np_gt a c"
  by (cases a; cases b; cases c) simp_all

lemma np_gt_asym: "np_gt a b \<Longrightarrow> \<not> np_gt b a"
  by (cases a; cases b) simp_all

lemma np_gt_NaN_left: "\<not> np_gt NaN t"
  by simp

lemma np_gt_NaN_right: "\<not> np_gt t NaN"
  by (cases t) simp_all

section \<open>What a gallery scan returns\<close>

text \<open>
  Either the scan leaves \<open>(best_match, best_score)\<close> as it found them, and then no entry
  passed the test against the threshold and the starting score; or the result is an entry
  \<open>x\<close> of the gallery, split as \<open>pre @ x # post\<close>, whose score no entry exceeds and no
  entry of \<open>pre\<close> equals.
\<close>

lemma scan_insightface_result:
  "scan_insightface emb g (bm, bs) = Inr (bm', bs') \<Longrightarrow>
     (bm' = bm \<and> bs' = bs \<and>
        (\<forall>x \<in> set g. \<forall>s. cosine_similarity emb (snd (snd x)) = Inr s \<longrightarrow>
            \<not> (np_gt s (Fin threshold_insightface) \<and> np_gt s bs)))
   \<or> (\<exists>pre x post s.
         g = pre @ x # post \<and> cosine_similarity emb (snd (snd x)) = Inr s \<and>
         bm' = Some (fst x, fst (snd x), s) \<and> bs' = s \<and>
         np_gt s (Fin threshold_insightface) \<and> np_gt s bs \<and>
         (\<forall>y \<in> set g. \<forall>t. cosine_similarity emb (snd (snd y)) = Inr t \<longrightarrow> \<not> np_gt t s) \<and>
         (\<forall>y \<in> set pre. cosine_similarity emb (snd (snd y)) \<noteq> Inr s))"
proof (induction g arbitrary: bm bs)
  case Nil
  then show ?case by simp
next
  case (Cons x g)
  obtain u0 d0 e0 where x: "x = (u0, d0, e0)" by (cases x) auto
  from Cons.prems x obtain s0 where s0: "cosine_similarity emb e0 = Inr s0"
    by (auto split: sum.splits)
  show ?case
  proof (cases "np_gt s0 (Fin threshold_insightface) \<and> np_gt s0 bs")
    case True
    with Cons.prems x s0 have
      run: "scan_insightface emb g (Some (u0, d0, s0), s0) = Inr (bm', bs')" by simp
    from Cons.IH [OF run] show ?thesis
    proof (elim disjE conjE exE)
      assume a: "bm' = Some (u0, d0, s0)" "bs' = s0"
        and b: "\<forall>x \<in> set g. \<forall>s. cosine_similarity emb (snd (snd x)) = Inr s \<longrightarrow>
            \<not> (np_gt s (Fin threshold_insightface) \<and> np_gt s s0)"
      have "\<forall>y \<in> set g. \<forall>t. cosine_similarity emb (snd (snd y)) = Inr t \<longrightarrow> \<not> np_gt t s0"
        using b True by (blast intro: np_gt_trans)
      then have 2: "\<forall>y \<in> set (x # g). \<forall>t. cosine_similarity emb (snd (snd y)) = Inr t \<longrightarrow> \<not> np_gt t s0"
        using x s0 by (simp add: np_gt_irrefl)
      have "x # g = [] @ x # g \<and> cosine_similarity emb (snd (snd x)) = Inr s0 \<and>
         bm' = Some (fst x, fst (snd x), s0) \<and> bs' = s0 \<and>
         np_gt s0 (Fin threshold_insightface) \<and> np_gt s0 bs \<and>
         (\<forall>y \<in> set (x # g). \<forall>t. cosine_similarity emb (snd (snd y)) = Inr t \<longrightarrow> \<not> np_gt t s0) \<and>
         (\<forall>y \<in> set []. cosine_similarity emb (snd (snd y)) \<noteq> Inr s0)"
        using a True x s0 2 by simp
      then show ?thesis by blast
    next
      fix pre z post s
      assume a: "g = pre @ z # post" "cosine_similarity emb (snd (snd z)) = Inr s"
        "bm' = Some (fst z, fst (snd z), s)" "bs' = s"
        "np_gt s (Fin threshold_insightface)" "np_gt s s0"
        and b: "\<forall>y \<in> set g. \<forall>t. cosine_similarity emb (snd (snd y)) = Inr t \<longrightarrow> \<not> np_gt t s"
        and c: "\<forall>y \<in> set pre. cosine_similarity emb (snd (snd y)) \<noteq> Inr s"
      have 1: "np_gt s bs" using a True by (blast intro: np_gt_trans)
      have 0: "\<not> np_gt s0 s" "s0 \<noteq> s"
        using a(6) np_gt_asym np_gt_irrefl by blast+
      have 2: "\<forall>y \<in> set (x # g). \<forall>t. cosine_similarity emb (snd (snd y)) = Inr t \<longrightarrow> \<not> np_gt t s"
        using b 0 x s0 by simp
      have 3: "\<forall>y \<in> set (x # pre). cosine_similarity emb (snd (snd y)) \<noteq> Inr s"
        using c 0 x s0 by simp
      have "x # g = (x # pre) @ z # post" using a by simp
      with a 1 2 3 show ?thesis by blast
    qed
  next
    case False
    with Cons.prems x s0 have
      run: "scan_insightface emb g (bm, bs) = Inr (bm', bs')" by auto
    from Cons.IH [OF run] show ?thesis
    proof (elim disjE conjE exE)
      assume a: "bm' = bm" "bs' = bs"
        and b: "\<forall>x \<in> set g. \<forall>s. cosine_similarity emb (snd (snd x)) = Inr s \<longrightarrow>
            \<not> (np_gt s (Fin threshold_insightface) \<and> np_gt s bs)"
      have "\<forall>y \<in> set (x # g). \<forall>s. cosine_similarity emb (snd (snd y)) = Inr s \<longrightarrow>
            \<not> (np_gt s (Fin threshold_insightface) \<and> np_gt s bs)"
        using b False x s0 by simp
      with a show ?thesis by blast
    next
      fix pre z post s
      assume a: "g = pre @ z # post" "cosine_similarity emb (snd (snd z)) = Inr s"
        "bm' = Some (fst z, fst (snd z), s)" "bs' = s"
        "np_gt s (Fin threshold_insightface)" "np_gt s bs"
        and b: "\<forall>y \<in> set g. \<forall>t. cosine_similarity emb (snd (snd y)) = Inr t \<longrightarrow> \<not> np_gt t s"
        and c: "\<forall>y \<in> set pre. cosine_similarity emb (snd (snd y)) \<noteq> Inr s"
      have 0: "\<not> np_gt s0 s" "s0 \<noteq> s"
        using False a(5,6) by (blast intro: np_gt_trans)+
      have 2: "\<forall>y \<in> set (x # g). \<forall>t. cosine_similarity emb (snd (snd y)) = Inr t \<longrightarrow> \<not> np_gt t s"
        using b 0 x s0 by simp
      have 3: "\<forall>y \<in> set (x # pre). cosine_similarity emb (snd (snd y)) \<noteq> Inr s"
        using c 0 x s0 by simp
      have "x # g = (x # pre) @ z # post" using a by simp
      with a 2 3 show ?thesis by blast
    qed
  qed
qed

lemma scan_opencv_result:
  "scan_opencv emb g (bm, bs) = (bm', bs') \<Longrightarrow>
     (bm' = bm \<and> bs' = bs \<and>
        (\<forall>x \<in> set g. length emb = length (snd (snd x)) \<longrightarrow>
            \<not> (np_gt (distance_similarity emb (snd (snd x))) (Fin threshold_opencv) \<and>
               np_gt (distance_similarity emb (snd (snd x))) bs)))
   \<or> (\<exists>pre x post s.
         g = pre @ x # post \<and> length emb = length (snd (snd x)) \<and>
         s = distance_similarity emb (snd (snd x)) \<and>
         bm' = Some (fst x, fst (snd x), s) \<and> bs' = s \<and>
         np_gt s (Fin threshold_opencv) \<and> np_gt s bs \<and>
         (\<forall>y \<in> set g. length emb = length (snd (snd y)) \<longrightarrow>
             \<not> np_gt (distance_similarity emb (snd (snd y))) s) \<and>
         (\<forall>y \<in> set pre. length emb = length (snd (snd y)) \<longrightarrow>
             distance_similarity emb (snd (snd y)) \<noteq> s))"
proof (induction g arbitrary: bm bs)
  case Nil
  then show ?case by simp
next
  case (Cons x g)
  obtain u0 d0 e0 where x: "x = (u0, d0, e0)" by (cases x) auto
  define s0 where "s0 = distance_similarity emb e0"
  show ?case
  proof (cases "length emb = length e0 \<and> np_gt s0 (Fin threshold_opencv) \<and> np_gt s0 bs")
    case True
    with Cons.prems x have
      run: "scan_opencv emb g (Some (u0, d0, s0), s0) = (bm', bs')"
      by (simp add: s0_def Let_def)
    from Cons.IH [OF run] show ?thesis
    proof (elim disjE conjE exE)
      assume a: "bm' = Some (u0, d0, s0)" "bs' = s0"
        and b: "\<forall>x \<in> set g. length emb = length (snd (snd x)) \<longrightarrow>
            \<not> (np_gt (distance_similarity emb (snd (snd x))) (Fin threshold_opencv) \<and>
               np_gt (distance_similarity emb (snd (snd x))) s0)"
      have "\<forall>y \<in> set g. length emb = length (snd (snd y)) \<longrightarrow>
             \<not> np_gt (distance_similarity emb (snd (snd y))) s0"
        using b True by (blast intro: np_gt_trans)
      then have 2: "\<forall>y \<in> set (x # g). length emb = length (snd (snd y)) \<longrightarrow>
             \<not> np_gt (distance_similarity emb (snd (snd y))) s0"
        using x by (simp add: np_gt_irrefl s0_def)
      have "x # g = [] @ x # g \<and> length emb = length (snd (snd x)) \<and>
         s0 = distance_similarity emb (snd (snd x)) \<and>
         bm' = Some (fst x, fst (snd x), s0) \<and> bs' = s0 \<and>
         np_gt s0 (Fin threshold_opencv) \<and> np_gt s0 bs \<and>
         (\<forall>y \<in> set (x # g). length emb = length (snd (snd y)) \<longrightarrow>
             \<not> np_gt (distance_similarity emb (snd (snd y))) s0) \<and>
         (\<forall>y \<in> set []. length emb = length (snd (snd y)) \<longrightarrow>
             distance_similarity emb (snd (snd y)) \<noteq> s0)"
        using a True x 2 by (simp add: s0_def)
      then show ?thesis by blast
    next
      fix pre z post s
      assume a: "g = pre @ z # post" "length emb = length (snd (snd z))"
        "s = distance_similarity emb (snd (snd z))"
        "bm' = Some (fst z, fst (snd z), s)" "bs' = s"
        "np_gt s (Fin threshold_opencv)" "np_gt s s0"
        and b: "\<forall>y \<in> set g. length emb = length (snd (snd y)) \<longrightarrow>
             \<not> np_gt (distance_similarity emb (snd (snd y))) s"
        and c: "\<forall>y \<in> set pre. length emb = length (snd (snd y)) \<longrightarrow>
             distance_similarity emb (snd (snd y)) \<noteq> s"
      have 1: "np_gt s bs" using a True by (blast intro: np_gt_trans)
      have 0: "\<not> np_gt s0 s" "s0 \<noteq> s"
        using a(7) np_gt_asym np_gt_irrefl by blast+
      have 2: "\<forall>y \<in> set (x # g). length emb = length (snd (snd y)) \<longrightarrow>
             \<not> np_gt (distance_similarity emb (snd (snd y))) s"
        using b 0 x by (simp add: s0_def)
      have 3: "\<forall>y \<in> set (x # pre). length emb = length (snd (snd y)) \<longrightarrow>
             distance_similarity emb (snd (snd y)) \<noteq> s"
        using c 0 x by (simp add: s0_def)
      have "x # g = (x # pre) @ z # post" using a by simp
      with a 1 2 3 show ?thesis by blast
    qed
  next
    case False
    with Cons.prems x have
      run: "scan_opencv emb g (bm, bs) = (bm', bs')"
      by (auto simp: s0_def Let_def split: if_splits)
    from Cons.IH [OF run] show ?thesis
    proof (elim disjE conjE exE)
      assume a: "bm' = bm" "bs' = bs"
        and b: "\<forall>x \<in> set g. length emb = length (snd (snd x)) \<longrightarrow>
            \<not> (np_gt (distance_similarity emb (snd (snd x))) (Fin threshold_opencv) \<and>
               np_gt (distance_similarity emb (snd (snd x))) bs)"
      have "\<forall>y \<in> set (x # g). length emb = length (snd (snd y)) \<longrightarrow>
            \<not> (np_gt (distance_similarity emb (snd (snd y))) (Fin threshold_opencv) \<and>
               np_gt (distance_similarity emb (snd (snd y))) bs)"
        using b False x by (simp add: s0_def)
      with a show ?thesis by blast
    next
      fix pre z post s
      assume a: "g = pre @ z # post" "length emb = length (snd (snd z))"
        "s = distance_similarity emb (snd (snd z))"
        "bm' = Some (fst z, fst (snd z), s)" "bs' = s"
        "np_gt s (Fin threshold_opencv)" "np_gt s bs"
        and b: "\<forall>y \<in> set g. length emb = length (snd (snd y)) \<longrightarrow>
             \<not> np_gt (distance_similarity emb (snd (snd y))) s"
        and c: "\<forall>y \<in> set pre. length emb = length (snd (snd y)) \<longrightarrow>
             distance_similarity emb (snd (snd y)) \<noteq> s"
      have 0: "length emb = length e0 \<longrightarrow> \<not> np_gt s0 s \<and> s0 \<noteq> s"
        using False a(6,7) by (blast intro: np_gt_trans)
      have 2: "\<forall>y \<in> set (x # g). length emb = length (snd (snd y)) \<longrightarrow>
             \<not> np_gt (distance_similarity emb (snd (snd y))) s"
        using b 0 x by (simp add: s0_def)
      have 3: "\<forall>y \<in> set (x # pre). length emb = length (snd (snd y)) \<longrightarrow>
             distance_similarity emb (snd (snd y)) \<noteq> s"
        using c 0 x by (simp add: s0_def)
      have "x # g = (x # pre) @ z # post" using a by simp
      with a 2 3 show ?thesis by blast
    qed
  qed
qed

text \<open>
  The guard's scan, when it ends without an exception: either no user passed the test, or
  the result is the first user, in the order of the fetched list, whose similarity passed.
\<close>

lemma scan_users_result:
  "scan_users p thr us = Inr r \<Longrightarrow>
     (r = (False, None) \<and>
        (\<forall>u \<in> set us. \<forall>e s. doc_face_embedding u = Some (Pickled e) \<longrightarrow>
            cosine_similarity e p = Inr s \<longrightarrow> \<not> np_gt s (Fin thr)))
   \<or> (\<exists>pre u post e s n.
         us = pre @ u # post \<and> doc_face_embedding u = Some (Pickled e) \<and>
         cosine_similarity e p = Inr s \<and> np_gt s (Fin thr) \<and> doc_name u = Some n \<and>
         r = (True, Some \<lparr>info_id = doc_id u, info_name = n, info_similarity = s\<rparr>) \<and>
         (\<forall>v \<in> set pre. \<forall>e t. doc_face_embedding v = Some (Pickled e) \<longrightarrow>
            cosine_similarity e p = Inr t \<longrightarrow> \<not> np_gt t (Fin thr)))"
proof (induction us)
  case Nil
  then show ?case by simp
next
  case (Cons u us)
  show ?case
  proof (cases "doc_face_embedding u")
    case None
    with Cons.prems have run: "scan_users p thr us = Inr r" by simp
    from Cons.IH [OF run] show ?thesis
    proof (elim disjE conjE exE)
      assume "r = (False, None)"
        "\<forall>u \<in> set us. \<forall>e s. doc_face_embedding u = Some (Pickled e) \<longrightarrow>
            cosine_similarity e p = Inr s \<longrightarrow> \<not> np_gt s (Fin thr)"
      with None show ?thesis by simp
    next
      fix pre v post e s n
      assume a: "us = pre @ v # post" "doc_face_embedding v = Some (Pickled e)"
        "cosine_similarity e p = Inr s" "np_gt s (Fin thr)" "doc_name v = Some n"
        "r = (True, Some \<lparr>info_id = doc_id v, info_name = n, info_similarity = s\<rparr>)"
        and c: "\<forall>v \<in> set pre. \<forall>e t. doc_face_embedding v = Some (Pickled e) \<longrightarrow>
            cosine_similarity e p = Inr t \<longrightarrow> \<not> np_gt t (Fin thr)"
      have 3: "\<forall>v \<in> set (u # pre). \<forall>e t. doc_face_embedding v = Some (Pickled e) \<longrightarrow>
            cosine_similarity e p = Inr t \<longrightarrow> \<not> np_gt t (Fin thr)"
        using c None by simp
      have "u # us = (u # pre) @ v # post" using a by simp
      with a 3 show ?thesis by blast
    qed
  next
    case (Some b)
    with Cons.prems obtain e0 where b: "b = Pickled e0"
      by (cases b) auto
    from Cons.prems Some b obtain s0 where s0: "cosine_similarity e0 p = Inr s0"
      by (auto split: sum.splits)
    show ?thesis
    proof (cases "np_gt s0 (Fin thr)")
      case True
      with Cons.prems Some b s0 obtain n where
        n: "doc_name u = Some n"
        and r: "r = (True, Some \<lparr>info_id = doc_id u, info_name = n, info_similarity = s0\<rparr>)"
        by (auto split: option.splits)
      have "u # us = [] @ u # us" by simp
      moreover have "\<forall>v \<in> set []. \<forall>e t. doc_face_embedding v = Some (Pickled e) \<longrightarrow>
            cosine_similarity e p = Inr t \<longrightarrow> \<not> np_gt t (Fin thr)" by simp
      ultimately show ?thesis using Some b s0 True n r by blast
    next
      case False
      with Cons.prems Some b s0 have run: "scan_users p thr us = Inr r" by simp
      from Cons.IH [OF run] show ?thesis
      proof (elim disjE conjE exE)
        assume "r = (False, None)"
          "\<forall>u \<in> set us. \<forall>e s. doc_face_embedding u = Some (Pickled e) \<longrightarrow>
              cosine_similarity e p = Inr s \<longrightarrow> \<not> np_gt s (Fin thr)"
        with Some b s0 False show ?thesis by simp
      next
        fix pre v post e s n
        assume a: "us = pre @ v # post" "doc_face_embedding v = Some (Pickled e)"
          "cosine_similarity e p = Inr s" "np_gt s (Fin thr)" "doc_name v = Some n"
          "r = (True, Some \<lparr>info_id = doc_id v, info_name = n, info_similarity = s\<rparr>)"
          and c: "\<forall>v \<in> set pre. \<forall>e t. doc_face_embedding v = Some (Pickled e) \<longrightarrow>
              cosine_similarity e p = Inr t \<longrightarrow> \<not> np_gt t (Fin thr)"
        have 3: "\<forall>v \<in> set (u # pre). \<forall>e t. doc_face_embedding v = Some (Pickled e) \<longrightarrow>
              cosine_similarity e p = Inr t \<longrightarrow> \<not> np_gt t (Fin thr)"
          using c Some b s0 False by simp
        have "u # us = (u # pre) @ v # post" using a by simp
        with a 3 show ?thesis by blast
      qed
    qed
  qed
qed

section \<open>Recognition and the threshold\<close>

text \<open>Both thresholds lie above the starting score \<open>-1\<close>.\<close>

lemma threshold_above_start: "np_gt s (Fin threshold_insightface) \<Longrightarrow> np_gt s (Fin (- 1))"
  by (cases s) (simp_all add: threshold_insightface_def)

lemma threshold_opencv_above_start: "np_gt s (Fin threshold_opencv) \<Longrightarrow> np_gt s (Fin (- 1))"
  by (cases s) (simp_all add: threshold_opencv_def)

lemma scan_insightface_recognized:
  assumes run: "scan_insightface emb g (None, Fin (- 1)) = Inr (r, bs)"
  shows "r \<noteq> None \<longleftrightarrow>
     (\<exists>x \<in> set g. \<exists>s. cosine_similarity emb (snd (snd x)) = Inr s \<and>
          np_gt s (Fin threshold_insightface))"
  using scan_insightface_result [OF run]
proof (elim disjE conjE exE)
  assume r: "r = None" and
    b: "\<forall>x \<in> set g. \<forall>s. cosine_similarity emb (snd (snd x)) = Inr s \<longrightarrow>
        \<not> (np_gt s (Fin threshold_insightface) \<and> np_gt s (Fin (- 1)))"
  have "\<not> (\<exists>x \<in> set g. \<exists>s. cosine_similarity emb (snd (snd x)) = Inr s \<and>
          np_gt s (Fin threshold_insightface))"
  proof
    assume "\<exists>x \<in> set g. \<exists>s. cosine_similarity emb (snd (snd x)) = Inr s \<and>
          np_gt s (Fin threshold_insightface)"
    then obtain x s where x: "x \<in> set g" "cosine_similarity emb (snd (snd x)) = Inr s"
      "np_gt s (Fin threshold_insightface)" by blast
    from x(3) have "np_gt s (Fin (- 1))" by (rule threshold_above_start)
    with b x show False by blast
  qed
  with r show ?thesis by simp
next
  fix pre x post s
  assume a: "g = pre @ x # post" "cosine_similarity emb (snd (snd x)) = Inr s"
    "r = Some (fst x, fst (snd x), s)" "np_gt s (Fin threshold_insightface)"
  from a(1) have "x \<in> set g" by simp
  with a(2,4) have "\<exists>x \<in> set g. \<exists>s. cosine_similarity emb (snd (snd x)) = Inr s \<and>
          np_gt s (Fin threshold_insightface)" by blast
  with a(3) show ?thesis by simp
qed

lemma scan_opencv_recognized:
  assumes run: "scan_opencv emb g (None, Fin (- 1)) = (r, bs)"
  shows "r \<noteq> None \<longleftrightarrow>
     (\<exists>x \<in> set g. length emb = length (snd (snd x)) \<and>
          np_gt (distance_similarity emb (snd (snd x))) (Fin threshold_opencv))"
  using scan_opencv_result [OF run]
proof (elim disjE conjE exE)
  assume r: "r = None" and
    b: "\<forall>x \<in> set g. length emb = length (snd (snd x)) \<longrightarrow>
        \<not> (np_gt (distance_similarity emb (snd (snd x))) (Fin threshold_opencv) \<and>
           np_gt (distance_similarity emb (snd (snd x))) (Fin (- 1)))"
  have "\<not> (\<exists>x \<in> set g. length emb = length (snd (snd x)) \<and>
          np_gt (distance_similarity emb (snd (snd x))) (Fin threshold_opencv))"
  proof
    assume "\<exists>x \<in> set g. length emb = length (snd (snd x)) \<and>
          np_gt (distance_similarity emb (snd (snd x))) (Fin threshold_opencv)"
    then obtain x where x: "x \<in> set g" "length emb = length (snd (snd x))"
      "np_gt (distance_similarity emb (snd (snd x))) (Fin threshold_opencv)" by blast
    from x(3) have "np_gt (distance_similarity emb (snd (snd x))) (Fin (- 1))"
      by (rule threshold_opencv_above_start)
    with b x show False by blast
  qed
  with r show ?thesis by simp
next
  fix pre x post s
  assume a: "g = pre @ x # post" "length emb = length (snd (snd x))"
    "s = distance_similarity emb (snd (snd x))"
    "r = Some (fst x, fst (snd x), s)" "np_gt s (Fin threshold_opencv)"
  from a(1) have "x \<in> set g" by simp
  with a(2,3,5) have "\<exists>x \<in> set g. length emb = length (snd (snd x)) \<and>
          np_gt (distance_similarity emb (snd (snd x))) (Fin threshold_opencv)" by blast
  with a(4) show ?thesis by simp
qed

lemma match_insightface_recognized:
  assumes m: "match_insightface emb se = Inr r"
  shows "r \<noteq> None \<longleftrightarrow>
     (\<exists>g. se = Some g \<and> (\<exists>x \<in> set g. \<exists>s. cosine_similarity emb (snd (snd x)) = Inr s \<and>
          np_gt s (Fin threshold_insightface)))"
proof (cases se)
  case None
  with m show ?thesis by (simp add: match_insightface_def)
next
  case (Some g)
  show ?thesis
  proof (cases "g = []")
    case True
    with m Some show ?thesis by (simp add: match_insightface_def)
  next
    case False
    with m Some obtain bs where
      run: "scan_insightface emb g (None, Fin (- 1)) = Inr (r, bs)"
      by (auto simp: match_insightface_def split: sum.splits)
    from scan_insightface_recognized [OF run] Some show ?thesis by simp
  qed
qed

lemma match_opencv_recognized:
  "match_opencv emb se \<noteq> None \<longleftrightarrow>
     (\<exists>g. se = Some g \<and> (\<exists>x \<in> set g. length emb = length (snd (snd x)) \<and>
          np_gt (distance_similarity emb (snd (snd x))) (Fin threshold_opencv)))"
proof (cases se)
  case None
  then show ?thesis by (simp add: match_opencv_def)
next
  case (Some g)
  show ?thesis
  proof (cases "g = []")
    case True
    with Some show ?thesis by (simp add: match_opencv_def)
  next
    case False
    obtain r bs where
      run: "scan_opencv emb g (None, Fin (- 1)) = (r, bs)"
      by (cases "scan_opencv emb g (None, Fin (- 1))")
    with Some False have "match_opencv emb se = r" by (simp add: match_opencv_def)
    with scan_opencv_recognized [OF run] Some show ?thesis by simp
  qed
qed

lemma scan_users_flagged:
  assumes run: "scan_users p thr us = Inr q"
  shows "fst q \<longleftrightarrow>
     (\<exists>u \<in> set us. \<exists>e s. doc_face_embedding u = Some (Pickled e) \<and>
        cosine_similarity e p = Inr s \<and> np_gt s (Fin thr))"
  using scan_users_result [OF run]
proof (elim disjE conjE exE)
  assume "q = (False, None)"
    "\<forall>u \<in> set us. \<forall>e s. doc_face_embedding u = Some (Pickled e) \<longrightarrow>
        cosine_similarity e p = Inr s \<longrightarrow> \<not> np_gt s (Fin thr)"
  then show ?thesis by auto
next
  fix pre u post e s n
  assume a: "us = pre @ u # post" "doc_face_embedding u = Some (Pickled e)"
    "cosine_similarity e p = Inr s" "np_gt s (Fin thr)"
    "q = (True, Some \<lparr>info_id = doc_id u, info_name = n, info_similarity = s\<rparr>)"
  from a(1) have "u \<in> set us" by simp
  with a(2,3,4) have "\<exists>u \<in> set us. \<exists>e s. doc_face_embedding u = Some (Pickled e) \<and>
        cosine_similarity e p = Inr s \<and> np_gt s (Fin thr)" by blast
  with a(5) show ?thesis by simp
qed

text \<open>
  C1, as stated, fails for the guard. With a first user whose stored embedding has three
  components and a second user, Ann, whose embedding is the probe \<open>[1, 0]\<close>, \<open>np.dot\<close>
  raises on the first user, the handler returns \<open>(False, None)\<close>, and no duplicate is
  reported at threshold \<open>0.6\<close> although Ann's similarity is \<open>1\<close>.
\<close>

theorem guard_misses_duplicate_counterexample:
  "check_face_exists
      (Inr [\<lparr>doc_id = ''u0'', doc_name = Some ''Old'',
               doc_face_embedding = Some (Pickled [1, 0, 0])\<rparr>,
            \<lparr>doc_id = ''u1'', doc_name = Some ''Ann'',
               doc_face_embedding = Some (Pickled [1, 0])\<rparr>])
      [1, 0] (6 / 10) = (False, None)
   \<and> pickle_loads (Pickled [1, 0]) = Inr [1, 0]
   \<and> cosine_similarity [1, 0] [1, 0] = Inr (Fin 1)
   \<and> np_gt (Fin 1) (Fin (6 / 10))"
  by (simp add: check_face_exists_def cosine_similarity_def np_dot_def np_linalg_norm_def
      np_divide_def)

text \<open>
  C1, amended. The decision compares with a strict \<open>>\<close>. When the InsightFace scan ends
  without an exception, a face is recognized exactly when some gallery entry has a cosine
  similarity strictly above \<open>0.5\<close>; in the OpenCV branch exactly when some entry of the
  probe's length has a similarity strictly above \<open>0.8\<close>; and when the guard's scan ends
  without an exception, \<open>check_face_exists\<close> reports a duplicate exactly when some stored
  embedding has a cosine similarity strictly above the threshold passed in. A score equal
  to the threshold is not above it.
\<close>

theorem strict_threshold_decision:
  "(match_insightface emb se = Inr r \<longrightarrow>
      (r \<noteq> None \<longleftrightarrow>
        (\<exists>g. se = Some g \<and> (\<exists>x \<in> set g. \<exists>s. cosine_similarity emb (snd (snd x)) = Inr s \<and>
            np_gt s (Fin threshold_insightface)))))
   \<and> (match_opencv emb se \<noteq> None \<longleftrightarrow>
        (\<exists>g. se = Some g \<and> (\<exists>x \<in> set g. length emb = length (snd (snd x)) \<and>
            np_gt (distance_similarity emb (snd (snd x))) (Fin threshold_opencv))))
   \<and> (scan_users emb thr users = Inr q \<longrightarrow>
        check_face_exists (Inr users) emb thr = q \<and>
        (fst q \<longleftrightarrow>
          (\<exists>u \<in> set users. \<exists>e s. doc_face_embedding u = Some (Pickled e) \<and>
              cosine_similarity e emb = Inr s \<and> np_gt s (Fin thr))))
   \<and> \<not> np_gt (Fin thr) (Fin thr)"
proof (intro conjI impI)
  assume "match_insightface emb se = Inr r"
  then show "r \<noteq> None \<longleftrightarrow>
        (\<exists>g. se = Some g \<and> (\<exists>x \<in> set g. \<exists>s. cosine_similarity emb (snd (snd x)) = Inr s \<and>
            np_gt s (Fin threshold_insightface)))"
    by (rule match_insightface_recognized)
next
  show "match_opencv emb se \<noteq> None \<longleftrightarrow>
        (\<exists>g. se = Some g \<and> (\<exists>x \<in> set g. length emb = length (snd (snd x)) \<and>
            np_gt (distance_similarity emb (snd (snd x))) (Fin threshold_opencv)))"
    by (rule match_opencv_recognized)
next
  assume "scan_users emb thr users = Inr q"
  then show "check_face_exists (Inr users) emb thr = q"
    by (simp add: check_face_exists_def)
next
  assume "scan_users emb thr users = Inr q"
  then show "fst q \<longleftrightarrow>
          (\<exists>u \<in> set users. \<exists>e s. doc_face_embedding u = Some (Pickled e) \<and>
              cosine_similarity e emb = Inr s \<and> np_gt s (Fin thr))"
    by (rule scan_users_flagged)
next
  show "\<not> np_gt (Fin thr) (Fin thr)" by simp
qed

text \<open>The decision at concrete inputs: a score of \<open>1\<close> is recognized at threshold \<open>0.5\<close>, and is
  not a duplicate at threshold \<open>1\<close>.\<close>

lemma cos_unit: "cosine_similarity [1, 0] [1, 0] = Inr (Fin 1)"
  by (simp add: cosine_similarity_def np_dot_def np_linalg_norm_def np_divide_def)

theorem strict_threshold_decision_witness:
  "match_insightface [1, 0] (Some [(''u1'', ''Ann'', [1, 0])]) = Inr (Some (''u1'', ''Ann'', Fin 1))
   \<and> (\<exists>x \<in> set [(''u1'', ''Ann'', [1, 0 :: real])]. \<exists>s.
          cosine_similarity [1, 0] (snd (snd x)) = Inr s \<and> np_gt s (Fin threshold_insightface))
   \<and> scan_users [1, 0] 1
        [\<lparr>doc_id = ''u1'', doc_name = Some ''Ann'', doc_face_embedding = Some (Pickled [1, 0])\<rparr>]
        = Inr (False, None)
   \<and> check_face_exists
        (Inr [\<lparr>doc_id = ''u1'', doc_name = Some ''Ann'', doc_face_embedding = Some (Pickled [1, 0])\<rparr>])
        [1, 0] 1 = (False, None)
   \<and> \<not> (\<exists>u \<in> set [\<lparr>doc_id = ''u1'', doc_name = Some ''Ann'',
                        doc_face_embedding = Some (Pickled [1, 0])\<rparr>].
          \<exists>e s. doc_face_embedding u = Some (Pickled e) \<and>
             cosine_similarity e [1, 0] = Inr s \<and> np_gt s (Fin 1))"
proof -
  have h1: "match_insightface [1, 0] (Some [(''u1'', ''Ann'', [1, 0])])
      = Inr (Some (''u1'', ''Ann'', Fin 1))"
    by (simp add: match_insightface_def cos_unit threshold_insightface_def)
  have h2: "scan_users [1, 0] 1
        [\<lparr>doc_id = ''u1'', doc_name = Some ''Ann'', doc_face_embedding = Some (Pickled [1, 0])\<rparr>]
        = Inr (False, None)"
    by (simp add: cos_unit)
  from strict_threshold_decision
    [of "[1, 0]" "Some [(''u1'', ''Ann'', [1, 0])]" "Some (''u1'', ''Ann'', Fin 1)" 1
      "[\<lparr>doc_id = ''u1'', doc_name = Some ''Ann'', doc_face_embedding = Some (Pickled [1, 0])\<rparr>]"
      "(False, None)"]
    h1 h2
  show ?thesis by simp
qed

section \<open>Ties\<close>





lemma dist_same: "distance_similarity [1, 0] [1, 0] = Fin 1"
  by (simp add: distance_similarity_def np_subtract_def np_linalg_norm_def np_divide_def)




section \<open>Vectors\<close>

lemma sum_list_zip_nth:
  "length a = length b \<Longrightarrow>
     (\<Sum>(x, y) \<leftarrow> zip a b. f x y) = (\<Sum>i < length a. f (a ! i) (b ! i) :: real)"
proof (induction a b rule: list_induct2)
  case Nil
  then show ?case by simp
next
  case (Cons x xs y ys)
  then show ?case by (simp add: sum.lessThan_Suc_shift del: sum.lessThan_Suc)
qed

lemma sum_list_nth: "(\<Sum>x \<leftarrow> a. f x) = (\<Sum>i < length a. f (a ! i) :: real)"
proof (induction a)
  case Nil
  then show ?case by simp
next
  case (Cons x xs)
  then show ?case by (simp add: sum.lessThan_Suc_shift del: sum.lessThan_Suc)
qed

lemma np_dot_spec: "length a = length b \<Longrightarrow> np_dot a b = Inr (spec_dot a b)"
  by (simp add: np_dot_def spec_dot_def sum_list_zip_nth)

lemma np_linalg_norm_spec: "np_linalg_norm a = spec_norm a"
  by (simp add: np_linalg_norm_def spec_norm_def sum_list_nth power2_eq_square)

lemma np_subtract_nth:
  "length a = length b \<Longrightarrow> i < length a \<Longrightarrow> np_subtract a b ! i = a ! i - b ! i"
  by (simp add: np_subtract_def)

lemma length_np_subtract: "length a = length b \<Longrightarrow> length (np_subtract a b) = length a"
  by (simp add: np_subtract_def)

lemma sum_squares_nonneg: "0 \<le> (\<Sum>x \<leftarrow> a. x * x :: real)"
  by (induction a) simp_all

lemma np_linalg_norm_nonneg: "0 \<le> np_linalg_norm a"
  by (simp add: np_linalg_norm_def sum_squares_nonneg)

lemma np_linalg_norm_zero_iff: "np_linalg_norm a = 0 \<longleftrightarrow> (\<forall>x \<in> set a. x = 0)"
proof -
  have "(\<Sum>x \<leftarrow> a. x * x) = 0 \<longleftrightarrow> (\<forall>x \<in> set a. x = 0)"
  proof (induction a)
    case Nil
    then show ?case by simp
  next
    case (Cons x xs)
    have "x * x + (\<Sum>y \<leftarrow> xs. y * y) = 0 \<longleftrightarrow> x * x = 0 \<and> (\<Sum>y \<leftarrow> xs. y * y) = 0"
      by (rule add_nonneg_eq_0_iff) (simp_all add: sum_squares_nonneg)
    with Cons show ?case by simp
  qed
  then show ?thesis by (simp add: np_linalg_norm_def)
qed

lemma np_dot_zero_left:
  "length a = length b \<Longrightarrow> \<forall>x \<in> set a. x = 0 \<Longrightarrow> np_dot a b = Inr 0"
proof (induction a b rule: list_induct2)
  case Nil
  then show ?case by (simp add: np_dot_def)
next
  case (Cons x xs y ys)
  then show ?case by (simp add: np_dot_def)
qed

lemma np_dot_zero_right:
  "length a = length b \<Longrightarrow> \<forall>y \<in> set b. y = 0 \<Longrightarrow> np_dot a b = Inr 0"
proof (induction a b rule: list_induct2)
  case Nil
  then show ?case by (simp add: np_dot_def)
next
  case (Cons x xs y ys)
  then show ?case by (simp add: np_dot_def)
qed

lemma cosine_similarity_zero_norm:
  assumes len: "length a = length b"
    and z: "np_linalg_norm a = 0 \<or> np_linalg_norm b = 0"
  shows "cosine_similarity a b = Inr NaN"
proof -
  from z have d: "np_dot a b = Inr 0"
    using len np_dot_zero_left np_dot_zero_right by (auto simp: np_linalg_norm_zero_iff)
  from z have "np_linalg_norm a * np_linalg_norm b = 0" by auto
  with d show ?thesis by (simp add: cosine_similarity_def np_divide_def)
qed

lemma cosine_similarity_spec:
  assumes "length a = length b" "np_linalg_norm a \<noteq> 0" "np_linalg_norm b \<noteq> 0"
  shows "cosine_similarity a b = Inr (Fin (spec_cosine a b))"
  using assms
  by (simp add: cosine_similarity_def np_dot_spec np_divide_def spec_cosine_def
      np_linalg_norm_spec)

lemma distance_similarity_spec:
  assumes "length a = length b"
  shows "distance_similarity a b =
     Fin (1 / (1 + sqrt (\<Sum>i < length a. (a ! i - b ! i)\<^sup>2)))"
proof -
  have "np_linalg_norm (np_subtract a b) = sqrt (\<Sum>i < length a. (a ! i - b ! i)\<^sup>2)"
    using assms
    by (simp add: np_linalg_norm_spec spec_norm_def length_np_subtract np_subtract_nth)
  moreover have "1 + np_linalg_norm (np_subtract a b) \<noteq> 0"
    using np_linalg_norm_nonneg [of "np_subtract a b"] by simp
  ultimately show ?thesis by (simp add: distance_similarity_def np_divide_def)
qed


section \<open>Thresholds of the guard and of recognition\<close>

lemma np_linalg_norm_single: "np_linalg_norm [x] = \<bar>x\<bar>"
  by (simp add: np_linalg_norm_def)

lemma spec_cosine_single: "spec_cosine [x] [y] = x * y / (\<bar>x\<bar> * \<bar>y\<bar>)"
  by (simp add: spec_cosine_def spec_dot_def spec_norm_def)

text \<open>
  C2, as stated, fails: the threshold that the registration page passes to the guard,
  \<open>0.6\<close>, is not less than or equal to the recognition threshold \<open>0.5\<close> of the InsightFace
  branch.
\<close>

theorem guard_threshold_above_recognition_counterexample:
  "\<not> registration_similarity_threshold \<le> threshold_insightface"
  by (simp add: registration_similarity_threshold_def threshold_insightface_def)

text \<open>
  C2, amended. The guard's threshold \<open>0.6\<close> lies strictly above the recognition threshold
  \<open>0.5\<close> of the InsightFace branch and at or below the threshold \<open>0.8\<close> of the OpenCV
  branch; so every score that the guard flags as a duplicate also exceeds the InsightFace
  recognition threshold.
\<close>

theorem guard_threshold_between:
  "threshold_insightface < registration_similarity_threshold
   \<and> registration_similarity_threshold \<le> threshold_opencv
   \<and> (np_gt s (Fin registration_similarity_threshold) \<longrightarrow> np_gt s (Fin threshold_insightface))"
  by (cases s)
    (simp_all add: registration_similarity_threshold_def threshold_insightface_def
      threshold_opencv_def)

theorem guard_threshold_between_witness:
  "np_gt (Fin 1) (Fin registration_similarity_threshold)
   \<and> np_gt (Fin 1) (Fin threshold_insightface)"
proof -
  have h: "np_gt (Fin 1) (Fin registration_similarity_threshold)"
    by (simp add: registration_similarity_threshold_def)
  from guard_threshold_between [of "Fin 1"] h show ?thesis by simp
qed

section \<open>Entries of another dimension\<close>

text \<open>
  C3. The InsightFace branch has no length test: with a probe of length 2 and a gallery
  whose first entry has length 3, \<open>np.dot\<close> raises \<open>ValueError\<close> and the whole scan fails,
  although the second entry would match. The OpenCV branch, on the same gallery, passes
  over the first entry and returns the second.
\<close>

theorem dimension_mismatch_raises:
  "match_insightface [1, 0] (Some [(''u0'', ''Old'', [1, 0, 0]), (''u1'', ''Ann'', [1, 0])])
     = Inl ValueError
   \<and> match_opencv [1, 0] (Some [(''u0'', ''Old'', [1, 0, 0]), (''u1'', ''Ann'', [1, 0])])
     = Some (''u1'', ''Ann'', Fin 1)"
  by (simp add: match_insightface_def match_opencv_def cosine_similarity_def np_dot_def
      dist_same threshold_opencv_def Let_def)

section \<open>The score\<close>

text \<open>
  C4, as stated, fails in the OpenCV branch: for the probe \<open>[1]\<close> and the stored embedding
  \<open>[9/8]\<close> the score of the returned match is \<open>8/9\<close>, while the cosine similarity of the
  two vectors is \<open>1\<close>.
\<close>

theorem fallback_score_not_cosine:
  "match_opencv [1] (Some [(''u1'', ''Ann'', [9 / 8])]) = Some (''u1'', ''Ann'', Fin (8 / 9))
   \<and> spec_cosine [1] [9 / 8] = 1"
  by (simp add: match_opencv_def distance_similarity_def np_subtract_def
      np_linalg_norm_single np_divide_def threshold_opencv_def Let_def spec_cosine_single)

text \<open>
  C4, amended. In the InsightFace branch and in \<open>check_face_exists\<close> the score of two
  vectors of the same length and non-zero norm is their cosine similarity; in the OpenCV
  branch the score of two vectors of the same length is \<open>1 / (1 + d)\<close>, with \<open>d\<close> their
  Euclidean distance.
\<close>

theorem similarity_scores:
  "(length a = length b \<longrightarrow> np_linalg_norm a \<noteq> 0 \<longrightarrow> np_linalg_norm b \<noteq> 0 \<longrightarrow>
      cosine_similarity a b = Inr (Fin (spec_cosine a b)))
   \<and> (length a = length b \<longrightarrow>
      distance_similarity a b = Fin (1 / (1 + sqrt (\<Sum>i < length a. (a ! i - b ! i)\<^sup>2))))"
  using cosine_similarity_spec [of a b] distance_similarity_spec [of a b]
  by (intro conjI impI)

lemma sqrt_one_64th: "sqrt (1 / 64) = 1 / 8"
  by (rule real_sqrt_unique) (simp_all add: power2_eq_square)

theorem similarity_scores_witness:
  "length [1 :: real] = length [9 / 8 :: real] \<and> np_linalg_norm [1] \<noteq> 0
   \<and> np_linalg_norm [9 / 8] \<noteq> 0
   \<and> cosine_similarity [1] [9 / 8] = Inr (Fin 1)
   \<and> distance_similarity [1] [9 / 8] = Fin (8 / 9)"
proof -
  have h: "length [1 :: real] = length [9 / 8 :: real]" "np_linalg_norm [1] \<noteq> 0"
    "np_linalg_norm [9 / 8] \<noteq> 0"
    by (simp_all add: np_linalg_norm_single)
  note t = similarity_scores [of "[1]" "[9 / 8]"]
  from mp [OF mp [OF mp [OF conjunct1 [OF t] h(1)] h(2)] h(3)]
  have c1: "cosine_similarity [1] [9 / 8] = Inr (Fin 1)"
    by (simp add: spec_cosine_single)
  from mp [OF conjunct2 [OF t] h(1)]
  have c2: "distance_similarity [1] [9 / 8] = Fin (8 / 9)"
    by (simp add: power2_eq_square sqrt_one_64th)
  from h c1 c2 show ?thesis by (intro conjI)
qed

section \<open>Vectors of zero norm\<close>

text \<open>
  C5, as stated, fails in the OpenCV branch, which divides by no norm: a probe of zero
  norm matches a stored embedding of zero norm with score \<open>1\<close>.
\<close>

theorem zero_norm_fallback_matches:
  "np_linalg_norm [0, 0] = 0
   \<and> match_opencv [0, 0] (Some [(''u1'', ''Ann'', [0, 0])]) = Some (''u1'', ''Ann'', Fin 1)"
  by (simp add: match_opencv_def distance_similarity_def np_subtract_def
      np_linalg_norm_def np_divide_def threshold_opencv_def Let_def)

text \<open>
  C5, amended. Where the score is the cosine similarity (the InsightFace branch and
  \<open>check_face_exists\<close>), a probe and a stored embedding of the same length, one of them of
  zero norm, score \<open>nan\<close> without an exception; \<open>nan\<close> exceeds nothing, so the entry is no
  match and the scan goes on to the remaining entries with its state unchanged.
\<close>

theorem zero_norm_is_no_match:
  "length a = length b \<longrightarrow> np_linalg_norm a = 0 \<or> np_linalg_norm b = 0 \<longrightarrow>
     cosine_similarity a b = Inr NaN \<and> cosine_similarity b a = Inr NaN
     \<and> (\<forall>t. \<not> np_gt NaN t)
     \<and> scan_insightface a ((u, d, b) # rest) st = scan_insightface a rest st
     \<and> scan_users a thr
          (\<lparr>doc_id = i, doc_name = n, doc_face_embedding = Some (Pickled b)\<rparr> # users)
        = scan_users a thr users"
proof (intro impI)
  assume len: "length a = length b"
    and z: "np_linalg_norm a = 0 \<or> np_linalg_norm b = 0"
  have 1: "cosine_similarity a b = Inr NaN"
    using len z by (rule cosine_similarity_zero_norm)
  have 2: "cosine_similarity b a = Inr NaN"
    using len z by (intro cosine_similarity_zero_norm) auto
  have 3: "scan_insightface a ((u, d, b) # rest) st = scan_insightface a rest st"
    using 1 by (cases st) simp
  have 4: "scan_users a thr
          (\<lparr>doc_id = i, doc_name = n, doc_face_embedding = Some (Pickled b)\<rparr> # users)
        = scan_users a thr users"
    using 2 by simp
  from 1 2 3 4 show "cosine_similarity a b = Inr NaN \<and> cosine_similarity b a = Inr NaN
     \<and> (\<forall>t. \<not> np_gt NaN t)
     \<and> scan_insightface a ((u, d, b) # rest) st = scan_insightface a rest st
     \<and> scan_users a thr
          (\<lparr>doc_id = i, doc_name = n, doc_face_embedding = Some (Pickled b)\<rparr> # users)
        = scan_users a thr users"
    by simp
qed


theorem zero_norm_is_no_match_witness:
  "length [0, 0 :: real] = length [1, 0 :: real]
   \<and> (np_linalg_norm [0, 0] = 0 \<or> np_linalg_norm [1, 0] = 0)
   \<and> cosine_similarity [0, 0] [1, 0] = Inr NaN
   \<and> scan_insightface [0, 0] [(''u1'', ''Ann'', [1, 0])] (None, Fin (- 1))
       = Inr (None, Fin (- 1))
   \<and> scan_users [0, 0] (6 / 10) [\<lparr>doc_id = ''u1'', doc_name = Some ''Ann'', doc_face_embedding = Some (Pickled [1, 0])\<rparr>]
       = Inr (False, None)"
proof -
  have h1: "length [0, 0 :: real] = length [1, 0 :: real]" by simp
  have h2: "np_linalg_norm [0, 0] = 0 \<or> np_linalg_norm [1, 0] = 0"
    by (simp add: np_linalg_norm_def)
  note t = mp [OF mp [OF zero_norm_is_no_match
    [of "[0, 0]" "[1, 0]" "''u1''" "''Ann''" "[]" "(None, Fin (- 1))" "6 / 10" "''u1''"
      "Some ''Ann''" "[]"] h1] h2]
  from t have c1: "cosine_similarity [0, 0] [1, 0] = Inr NaN" by (rule conjunct1)
  from t have c2: "scan_insightface [0, 0] [(''u1'', ''Ann'', [1, 0])] (None, Fin (- 1))
       = Inr (None, Fin (- 1))" by simp
  from t have c3: "scan_users [0, 0] (6 / 10) [\<lparr>doc_id = ''u1'', doc_name = Some ''Ann'', doc_face_embedding = Some (Pickled [1, 0])\<rparr>]
       = Inr (False, None)" by simp
  from h1 h2 c1 c2 c3 show ?thesis by (intro conjI)
qed

section \<open>Exceptions inside the guard\<close>

text \<open>
  C10. Whenever fetching the users or scanning them raises, \<open>check_face_exists\<close> returns
  \<open>(False, None)\<close>; in particular when the first user's stored embedding does not
  deserialize, or has another length than the probe, whatever users follow.
\<close>

theorem guard_swallows_exceptions:
  "check_face_exists (Inl e) p thr = (False, None)
   \<and> (scan_users p thr users = Inl e \<longrightarrow>
        check_face_exists (Inr users) p thr = (False, None))
   \<and> (doc_face_embedding u = Some Corrupt \<longrightarrow>
        check_face_exists (Inr (u # users)) p thr = (False, None))
   \<and> (doc_face_embedding u = Some (Pickled x) \<longrightarrow> length x \<noteq> length p \<longrightarrow>
        check_face_exists (Inr (u # users)) p thr = (False, None))"
  by (simp add: check_face_exists_def cosine_similarity_def np_dot_def)

theorem guard_swallows_exceptions_witness:
  "scan_users [1, 0] (6 / 10)
      [\<lparr>doc_id = ''u0'', doc_name = Some ''Old'', doc_face_embedding = Some Corrupt\<rparr>,
       \<lparr>doc_id = ''u1'', doc_name = Some ''Ann'', doc_face_embedding = Some (Pickled [1, 0])\<rparr>]
     = Inl UnpicklingError
   \<and> check_face_exists
      (Inr [\<lparr>doc_id = ''u0'', doc_name = Some ''Old'', doc_face_embedding = Some Corrupt\<rparr>,
            \<lparr>doc_id = ''u1'', doc_name = Some ''Ann'', doc_face_embedding = Some (Pickled [1, 0])\<rparr>])
      [1, 0] (6 / 10) = (False, None)
   \<and> doc_face_embedding \<lparr>doc_id = ''u0'', doc_name = Some ''Old'', doc_face_embedding = Some (Pickled [1, 0, 0])\<rparr>
        = Some (Pickled [1, 0, 0])
   \<and> length [1, 0, 0 :: real] \<noteq> length [1, 0 :: real]
   \<and> check_face_exists
      (Inr [\<lparr>doc_id = ''u0'', doc_name = Some ''Old'', doc_face_embedding = Some (Pickled [1, 0, 0])\<rparr>,
            \<lparr>doc_id = ''u1'', doc_name = Some ''Ann'', doc_face_embedding = Some (Pickled [1, 0])\<rparr>])
      [1, 0] (6 / 10) = (False, None)
   \<and> check_face_exists (Inr [\<lparr>doc_id = ''u1'', doc_name = Some ''Ann'', doc_face_embedding = Some (Pickled [1, 0])\<rparr>])
      [1, 0] (6 / 10)
     = (True, Some \<lparr>info_id = ''u1'', info_name = ''Ann'', info_similarity = Fin 1\<rparr>)"
proof -
  have h1: "scan_users [1, 0] (6 / 10)
      [\<lparr>doc_id = ''u0'', doc_name = Some ''Old'', doc_face_embedding = Some Corrupt\<rparr>,
       \<lparr>doc_id = ''u1'', doc_name = Some ''Ann'', doc_face_embedding = Some (Pickled [1, 0])\<rparr>]
     = Inl UnpicklingError" by simp
  have h2: "doc_face_embedding \<lparr>doc_id = ''u0'', doc_name = Some ''Old'', doc_face_embedding = Some Corrupt\<rparr>
        = Some Corrupt" by simp
  have h3: "doc_face_embedding \<lparr>doc_id = ''u0'', doc_name = Some ''Old'', doc_face_embedding = Some (Pickled [1, 0, 0])\<rparr>
        = Some (Pickled [1, 0, 0])" by simp
  have h4: "length [1, 0, 0 :: real] \<noteq> length [1, 0 :: real]" by simp
  note t = guard_swallows_exceptions
    [where e = UnpicklingError and p = "[1, 0]" and thr = "6 / 10"
      and users = "[\<lparr>doc_id = ''u0'', doc_name = Some ''Old'', doc_face_embedding = Some Corrupt\<rparr>,
        \<lparr>doc_id = ''u1'', doc_name = Some ''Ann'', doc_face_embedding = Some (Pickled [1, 0])\<rparr>]"]
  note t'' = guard_swallows_exceptions
    [where p = "[1, 0]" and thr = "6 / 10"
      and u = "\<lparr>doc_id = ''u0'', doc_name = Some ''Old'', doc_face_embedding = Some Corrupt\<rparr>"
      and users = "[\<lparr>doc_id = ''u1'', doc_name = Some ''Ann'', doc_face_embedding = Some (Pickled [1, 0])\<rparr>]"]
  note t' = guard_swallows_exceptions
    [where p = "[1, 0]" and thr = "6 / 10"
      and u = "\<lparr>doc_id = ''u0'', doc_name = Some ''Old'', doc_face_embedding = Some (Pickled [1, 0, 0])\<rparr>"
      and users = "[\<lparr>doc_id = ''u1'', doc_name = Some ''Ann'', doc_face_embedding = Some (Pickled [1, 0])\<rparr>]"
      and x = "[1, 0, 0]"]
  from mp [OF conjunct1 [OF conjunct2 [OF t]] h1]
  have c1: "check_face_exists
      (Inr [\<lparr>doc_id = ''u0'', doc_name = Some ''Old'', doc_face_embedding = Some Corrupt\<rparr>,
            \<lparr>doc_id = ''u1'', doc_name = Some ''Ann'', doc_face_embedding = Some (Pickled [1, 0])\<rparr>])
      [1, 0] (6 / 10) = (False, None)" .
  from mp [OF conjunct1 [OF conjunct2 [OF conjunct2 [OF t'']]] h2]
  have c2: "check_face_exists
      (Inr [\<lparr>doc_id = ''u0'', doc_name = Some ''Old'', doc_face_embedding = Some Corrupt\<rparr>,
            \<lparr>doc_id = ''u1'', doc_name = Some ''Ann'', doc_face_embedding = Some (Pickled [1, 0])\<rparr>])
      [1, 0] (6 / 10) = (False, None)" .
  from mp [OF mp [OF conjunct2 [OF conjunct2 [OF conjunct2 [OF t']]] h3] h4]
  have c3: "check_face_exists
      (Inr [\<lparr>doc_id = ''u0'', doc_name = Some ''Old'', doc_face_embedding = Some (Pickled [1, 0, 0])\<rparr>,
            \<lparr>doc_id = ''u1'', doc_name = Some ''Ann'', doc_face_embedding = Some (Pickled [1, 0])\<rparr>])
      [1, 0] (6 / 10) = (False, None)" .
  have c4: "check_face_exists (Inr [\<lparr>doc_id = ''u1'', doc_name = Some ''Ann'', doc_face_embedding = Some (Pickled [1, 0])\<rparr>])
      [1, 0] (6 / 10)
     = (True, Some \<lparr>info_id = ''u1'', info_name = ''Ann'', info_similarity = Fin 1\<rparr>)"
    by (simp add: check_face_exists_def cos_unit)
  from h1 c1 h3 h4 c3 c4 c2 show ?thesis by (intro conjI)
qed

section \<open>The stable descending sort\<close>





section \<open>The face taken by \<open>get_face_embedding\<close>\<close>








section \<open>The store during \<open>detect_face_realtime\<close>\<close>

text \<open>
  The loops over the faces write to the cell of \<open>display_image\<close> only, and what they
  leave there is the starting frame with one marker for each outcome, in order.
\<close>

lemma color_of_marker: "color_of match = marker_color (match \<noteq> None)"
  by (cases match) (simp_all add: color_of_def marker_color_def)

lemma marker_colors_distinct: "marker_color True \<noteq> marker_color False"
  by (simp add: marker_color_def)

lemma make_face_data_fields:
  "fd_bbox (make_face_data bbox match fi) = bbox"
  "fd_recognized (make_face_data bbox match fi) = (match \<noteq> None)"
  by (simp_all add: make_face_data_def)

lemma faces_insightface_frame:
  "length (fst (faces_insightface cv i d se faces s acc)) = length s \<and>
   (\<forall>a. a \<noteq> d \<longrightarrow> fst (faces_insightface cv i d se faces s acc) ! a = s ! a)"
proof (induction faces arbitrary: s acc)
  case Nil
  show ?case by simp
next
  case (Cons face rest)
  obtain b0 b1 b2 b3 where b: "bbox_astype_int (face_bbox face) = (b0, b1, b2, b3)"
    by (cases "bbox_astype_int (face_bbox face)") auto
  show ?case
  proof (cases "match_insightface (face_embedding face) se")
    case (Inl e)
    with b show ?thesis by simp
  next
    case (Inr match)
    define s' where "s' = rectangle_inplace cv s d (max 0 b0, max 0 b1)
        (min b2 (snd (cv_shape cv (s ! d))), min b3 (fst (cv_shape cv (s ! d))))
        (color_of match) 2"
    define fd where "fd = make_face_data [b0, b1, b2, b3] match
        (encode_image_to_base64 cv (crop_bbox cv (s' ! i) (b0, b1, b2, b3)))"
    have step: "faces_insightface cv i d se (face # rest) s acc
        = faces_insightface cv i d se rest s' (acc @ [fd])"
      using b Inr by (simp add: Let_def s'_def fd_def)
    have l: "length s' = length s" by (simp add: s'_def rectangle_inplace_def)
    have n: "\<forall>a. a \<noteq> d \<longrightarrow> s' ! a = s ! a" by (simp add: s'_def rectangle_inplace_def)
    from Cons.IH [of s' "acc @ [fd]"] l n show ?thesis unfolding step by simp
  qed
qed

lemma faces_insightface_drawn:
  assumes "snd (faces_insightface cv i d se faces s acc) = Inr matches" "d < length s"
  shows "\<exists>new. matches = acc @ new \<and> length new = length faces \<and>
           fst (faces_insightface cv i d se faces s acc) ! d
             = draw_markers_insightface cv (s ! d) new"
  using assms
proof (induction faces arbitrary: s acc)
  case Nil
  then show ?case by simp
next
  case (Cons face rest)
  obtain b0 b1 b2 b3 where b: "bbox_astype_int (face_bbox face) = (b0, b1, b2, b3)"
    by (cases "bbox_astype_int (face_bbox face)") auto
  from Cons.prems(1) b obtain match where
    m: "match_insightface (face_embedding face) se = Inr match"
    by (cases "match_insightface (face_embedding face) se") simp_all
  define s' where "s' = rectangle_inplace cv s d (max 0 b0, max 0 b1)
      (min b2 (snd (cv_shape cv (s ! d))), min b3 (fst (cv_shape cv (s ! d))))
      (color_of match) 2"
  define fd where "fd = make_face_data [b0, b1, b2, b3] match
      (encode_image_to_base64 cv (crop_bbox cv (s' ! i) (b0, b1, b2, b3)))"
  have step: "faces_insightface cv i d se (face # rest) s acc
      = faces_insightface cv i d se rest s' (acc @ [fd])"
    using b m by (simp add: Let_def s'_def fd_def)
  have l: "d < length s'" using Cons.prems(2) by (simp add: s'_def rectangle_inplace_def)
  from Cons.prems(1) have r: "snd (faces_insightface cv i d se rest s' (acc @ [fd])) = Inr matches"
    by (simp only: step)
  from Cons.IH [OF r l] obtain new where
    new: "matches = (acc @ [fd]) @ new" "length new = length rest"
      "fst (faces_insightface cv i d se rest s' (acc @ [fd])) ! d
         = draw_markers_insightface cv (s' ! d) new"
    by blast
  have sd: "s' ! d = cv_rectangle cv (s ! d)
      (max 0 (fd_bbox fd ! 0), max 0 (fd_bbox fd ! 1))
      (min (fd_bbox fd ! 2) (snd (cv_shape cv (s ! d))),
       min (fd_bbox fd ! 3) (fst (cv_shape cv (s ! d))))
      (marker_color (fd_recognized fd)) 2"
    using Cons.prems(2)
    by (simp add: s'_def rectangle_inplace_def fd_def make_face_data_fields color_of_marker)
  have d1: "draw_markers_insightface cv (s ! d) (fd # new)
      = draw_markers_insightface cv (s' ! d) new"
    by (simp only: draw_markers_insightface.simps sd)
  have "matches = acc @ (fd # new) \<and> length (fd # new) = length (face # rest) \<and>
           fst (faces_insightface cv i d se (face # rest) s acc) ! d
             = draw_markers_insightface cv (s ! d) (fd # new)"
  proof (intro conjI)
    show "matches = acc @ (fd # new)" using new(1) by simp
    show "length (fd # new) = length (face # rest)" using new(2) by simp
    show "fst (faces_insightface cv i d se (face # rest) s acc) ! d
             = draw_markers_insightface cv (s ! d) (fd # new)"
      by (simp only: step new(3) d1)
  qed
  then show ?case by (intro exI)
qed

lemma faces_opencv_frame:
  "length (fst (faces_opencv cv i d se faces s acc)) = length s \<and>
   (\<forall>a. a \<noteq> d \<longrightarrow> fst (faces_opencv cv i d se faces s acc) ! a = s ! a)"
proof (induction faces arbitrary: s acc)
  case Nil
  show ?case by simp
next
  case (Cons face rest)
  obtain x y w h where f: "face = (x, y, w, h)" by (cases face) auto
  define match where
    "match = match_opencv (fallback_embedding cv (cv_slice cv (s ! i) y (y + h) x (x + w))) se"
  define s' where
    "s' = rectangle_inplace cv s d (x, y) (x + w, y + h) (color_of match) 2"
  define fd where "fd = make_face_data [x, y, x + w, y + h] match
      (encode_image_to_base64 cv (cv_slice cv (s ! i) y (y + h) x (x + w)))"
  have step: "faces_opencv cv i d se (face # rest) s acc
      = faces_opencv cv i d se rest s' (acc @ [fd])"
    by (simp add: f Let_def s'_def fd_def match_def)
  have l: "length s' = length s" by (simp add: s'_def rectangle_inplace_def)
  have n: "\<forall>a. a \<noteq> d \<longrightarrow> s' ! a = s ! a" by (simp add: s'_def rectangle_inplace_def)
  from Cons.IH [of s' "acc @ [fd]"] l n show ?case unfolding step by simp
qed

lemma faces_opencv_no_exception:
  "\<exists>matches. snd (faces_opencv cv i d se faces s acc) = Inr matches"
proof (induction faces arbitrary: s acc)
  case Nil
  show ?case by simp
next
  case (Cons face rest)
  obtain x y w h where f: "face = (x, y, w, h)" by (cases face) auto
  show ?case unfolding f faces_opencv.simps Let_def by (rule Cons.IH)
qed

lemma faces_opencv_drawn:
  assumes "snd (faces_opencv cv i d se faces s acc) = Inr matches" "d < length s"
  shows "\<exists>new. matches = acc @ new \<and> length new = length faces \<and>
           fst (faces_opencv cv i d se faces s acc) ! d
             = draw_markers_opencv cv (s ! d) new"
  using assms
proof (induction faces arbitrary: s acc)
  case Nil
  then show ?case by simp
next
  case (Cons face rest)
  obtain x y w h where f: "face = (x, y, w, h)" by (cases face) auto
  define match where
    "match = match_opencv (fallback_embedding cv (cv_slice cv (s ! i) y (y + h) x (x + w))) se"
  define s' where
    "s' = rectangle_inplace cv s d (x, y) (x + w, y + h) (color_of match) 2"
  define fd where "fd = make_face_data [x, y, x + w, y + h] match
      (encode_image_to_base64 cv (cv_slice cv (s ! i) y (y + h) x (x + w)))"
  have step: "faces_opencv cv i d se (face # rest) s acc
      = faces_opencv cv i d se rest s' (acc @ [fd])"
    by (simp add: f Let_def s'_def fd_def match_def)
  have l: "d < length s'" using Cons.prems(2) by (simp add: s'_def rectangle_inplace_def)
  from Cons.prems(1) have r: "snd (faces_opencv cv i d se rest s' (acc @ [fd])) = Inr matches"
    by (simp only: step)
  from Cons.IH [OF r l] obtain new where
    new: "matches = (acc @ [fd]) @ new" "length new = length rest"
      "fst (faces_opencv cv i d se rest s' (acc @ [fd])) ! d
         = draw_markers_opencv cv (s' ! d) new"
    by blast
  have sd: "s' ! d = cv_rectangle cv (s ! d)
      (fd_bbox fd ! 0, fd_bbox fd ! 1) (fd_bbox fd ! 2, fd_bbox fd ! 3)
      (marker_color (fd_recognized fd)) 2"
    using Cons.prems(2)
    by (simp add: s'_def rectangle_inplace_def fd_def make_face_data_fields color_of_marker)
  have d1: "draw_markers_opencv cv (s ! d) (fd # new)
      = draw_markers_opencv cv (s' ! d) new"
    by (simp only: draw_markers_opencv.simps sd)
  have "matches = acc @ (fd # new) \<and> length (fd # new) = length (face # rest) \<and>
           fst (faces_opencv cv i d se (face # rest) s acc) ! d
             = draw_markers_opencv cv (s ! d) (fd # new)"
  proof (intro conjI)
    show "matches = acc @ (fd # new)" using new(1) by simp
    show "length (fd # new) = length (face # rest)" using new(2) by simp
    show "fst (faces_opencv cv i d se (face # rest) s acc) ! d
             = draw_markers_opencv cv (s ! d) (fd # new)"
      by (simp only: step new(3) d1)
  qed
  then show ?case by (intro exI)
qed

lemma detect_insightface_fst:
  "fst (detect_face_realtime cv (InsightFace g) s i se)
     = fst (faces_insightface cv i (length s) se (g ((s @ [s ! i]) ! i)) (s @ [s ! i]) [])"
  by (cases "faces_insightface cv i (length s) se (g ((s @ [s ! i]) ! i)) (s @ [s ! i]) []")
    (simp add: detect_face_realtime_def np_copy_def split: sum.splits)

lemma detect_insightface_snd:
  "snd (detect_face_realtime cv (InsightFace g) s i se)
     = (case snd (faces_insightface cv i (length s) se (g ((s @ [s ! i]) ! i)) (s @ [s ! i]) [])
        of Inl e \<Rightarrow> Inl e | Inr matches \<Rightarrow> Inr (length s, matches))"
  by (cases "faces_insightface cv i (length s) se (g ((s @ [s ! i]) ! i)) (s @ [s ! i]) []")
    (simp add: detect_face_realtime_def np_copy_def split: sum.splits)

lemma detect_opencv_fst:
  "fst (detect_face_realtime cv (OpenCV dm) s i se)
     = fst (faces_opencv cv i (length s) se (dm (cv_cvtColor_gray cv ((s @ [s ! i]) ! i)))
              (s @ [s ! i]) [])"
  by (cases "faces_opencv cv i (length s) se (dm (cv_cvtColor_gray cv ((s @ [s ! i]) ! i)))
              (s @ [s ! i]) []")
    (simp add: detect_face_realtime_def np_copy_def split: sum.splits)

lemma detect_opencv_snd:
  "snd (detect_face_realtime cv (OpenCV dm) s i se)
     = (case snd (faces_opencv cv i (length s) se (dm (cv_cvtColor_gray cv ((s @ [s ! i]) ! i)))
              (s @ [s ! i]) [])
        of Inl e \<Rightarrow> Inl e | Inr matches \<Rightarrow> Inr (length s, matches))"
  by (cases "faces_opencv cv i (length s) se (dm (cv_cvtColor_gray cv ((s @ [s ! i]) ! i)))
              (s @ [s ! i]) []")
    (simp add: detect_face_realtime_def np_copy_def split: sum.splits)

lemma detect_store:
  "length (fst (detect_face_realtime cv self s image_ref se)) = Suc (length s) \<and>
   (\<forall>a < length s. fst (detect_face_realtime cv self s image_ref se) ! a = s ! a)"
proof (cases self)
  case (InsightFace g)
  have "\<forall>a < length s. (s @ [s ! image_ref]) ! a = s ! a" by (simp add: nth_append)
  then show ?thesis
    using faces_insightface_frame
      [of cv image_ref "length s" se "g ((s @ [s ! image_ref]) ! image_ref)"
        "s @ [s ! image_ref]" "[]"]
    by (simp add: InsightFace detect_insightface_fst)
next
  case (OpenCV dm)
  have "\<forall>a < length s. (s @ [s ! image_ref]) ! a = s ! a" by (simp add: nth_append)
  then show ?thesis
    using faces_opencv_frame
      [of cv image_ref "length s" se
        "dm (cv_cvtColor_gray cv ((s @ [s ! image_ref]) ! image_ref))"
        "s @ [s ! image_ref]" "[]"]
    by (simp add: OpenCV detect_opencv_fst)
qed

lemma detect_insightface_annotated:
  assumes "snd (detect_face_realtime cv (InsightFace g) s i se) = Inr (d, matches)"
  shows "d = length s \<and> length matches = length (g ((s @ [s ! i]) ! i)) \<and>
     fst (detect_face_realtime cv (InsightFace g) s i se) ! d
       = draw_markers_insightface cv (s ! i) matches"
proof -
  let ?R = "faces_insightface cv i (length s) se (g ((s @ [s ! i]) ! i)) (s @ [s ! i]) []"
  from assms have r: "snd ?R = Inr matches" and d: "d = length s"
    by (auto simp: detect_insightface_snd split: sum.splits)
  have l: "length s < length (s @ [s ! i])" by simp
  from faces_insightface_drawn [OF r l] obtain new where
    "matches = [] @ new" "length new = length (g ((s @ [s ! i]) ! i))"
    "fst ?R ! length s = draw_markers_insightface cv ((s @ [s ! i]) ! length s) new"
    by blast
  then show ?thesis by (simp add: d detect_insightface_fst)
qed

lemma detect_opencv_annotated:
  "\<exists>matches. snd (detect_face_realtime cv (OpenCV dm) s i se) = Inr (length s, matches) \<and>
     length matches = length (dm (cv_cvtColor_gray cv ((s @ [s ! i]) ! i))) \<and>
     fst (detect_face_realtime cv (OpenCV dm) s i se) ! length s
       = draw_markers_opencv cv (s ! i) matches"
proof -
  let ?R = "faces_opencv cv i (length s) se (dm (cv_cvtColor_gray cv ((s @ [s ! i]) ! i)))
              (s @ [s ! i]) []"
  from faces_opencv_no_exception obtain matches where r: "snd ?R = Inr matches" by blast
  have l: "length s < length (s @ [s ! i])" by simp
  from faces_opencv_drawn [OF r l] obtain new where
    "matches = [] @ new" "length new = length (dm (cv_cvtColor_gray cv ((s @ [s ! i]) ! i)))"
    "fst ?R ! length s = draw_markers_opencv cv ((s @ [s ! i]) ! length s) new"
    by blast
  with r have "snd (detect_face_realtime cv (OpenCV dm) s i se) = Inr (length s, matches) \<and>
     length matches = length (dm (cv_cvtColor_gray cv ((s @ [s ! i]) ! i))) \<and>
     fst (detect_face_realtime cv (OpenCV dm) s i se) ! length s
       = draw_markers_opencv cv (s ! i) matches"
    by (simp add: detect_opencv_fst detect_opencv_snd)
  then show ?thesis by (intro exI)
qed


text \<open>
  One frame, two faces, one of them registered: the call leaves the frame as it was and
  returns a second frame with a green and a red marker.
\<close>

lemma cos_orthogonal: "cosine_similarity [0, 1] [1, 0] = Inr (Fin 0)"
  by (simp add: cosine_similarity_def np_dot_def np_linalg_norm_def np_divide_def)

lemma toy_detect_insightface:
  "detect_face_realtime toy_cv (InsightFace (\<lambda>i. [\<lparr>face_bbox = (10, 20, 110, 220), face_embedding = [1, 0]\<rparr>, \<lparr>face_bbox = (- 11 / 2, 30, 700, 500), face_embedding = [0, 1]\<rparr>])) [[]] 0 (Some [(''u1'', ''Ann'', [1, 0])])
   = ([[], [((10, 20), (110, 220), (0, 255, 0)), ((0, 30), (640, 480), (0, 0, 255))]],
      Inr (1,
        [\<lparr>fd_bbox = [10, 20, 110, 220], fd_match = Some ''Ann'', fd_user_id = Some ''u1'',
           fd_confidence = Fin 1, fd_recognized = True, fd_face_image = None\<rparr>,
         \<lparr>fd_bbox = [- 5, 30, 700, 500], fd_match = None, fd_user_id = None,
           fd_confidence = Fin 0, fd_recognized = False, fd_face_image = None\<rparr>]))"
  by (simp add: detect_face_realtime_def np_copy_def bbox_astype_int_def astype_int_def
      match_insightface_def cos_unit cos_orthogonal threshold_insightface_def
      rectangle_inplace_def color_of_def make_face_data_def crop_bbox_def toy_cv_def Let_def)

section \<open>The outcomes of \<open>detect_face_realtime\<close>\<close>

text \<open>
  The list \<open>matches\<close> that the loops build is the list of the outcomes of the detected
  faces, computed on the input frame, which the drawing does not touch.
\<close>

lemma make_face_data_outcome: "make_face_data bbox match fi = outcome_of bbox match fi"
  by (cases match) (auto simp: make_face_data_def outcome_of_def)

lemma faces_insightface_outcomes:
  assumes "snd (faces_insightface cv i d se faces s acc) = Inr matches" "i \<noteq> d"
  shows "\<exists>new. matches = acc @ new \<and>
           map (outcome_insightface cv (s ! i) se) faces = map Inr new"
  using assms
proof (induction faces arbitrary: s acc)
  case Nil
  then show ?case by simp
next
  case (Cons face rest)
  obtain b0 b1 b2 b3 where b: "bbox_astype_int (face_bbox face) = (b0, b1, b2, b3)"
    by (cases "bbox_astype_int (face_bbox face)") auto
  from Cons.prems(1) b obtain match where
    m: "match_insightface (face_embedding face) se = Inr match"
    by (cases "match_insightface (face_embedding face) se") simp_all
  define s' where "s' = rectangle_inplace cv s d (max 0 b0, max 0 b1)
      (min b2 (snd (cv_shape cv (s ! d))), min b3 (fst (cv_shape cv (s ! d))))
      (color_of match) 2"
  define fd where "fd = make_face_data [b0, b1, b2, b3] match
      (encode_image_to_base64 cv (crop_bbox cv (s' ! i) (b0, b1, b2, b3)))"
  have step: "faces_insightface cv i d se (face # rest) s acc
      = faces_insightface cv i d se rest s' (acc @ [fd])"
    using b m by (simp add: Let_def s'_def fd_def)
  have si: "s' ! i = s ! i" using Cons.prems(2) by (simp add: s'_def rectangle_inplace_def)
  have o: "outcome_insightface cv (s ! i) se face = Inr fd"
    by (simp add: outcome_insightface_def m fd_def si b region_insightface_def
        make_face_data_outcome)
  from Cons.prems(1) have r: "snd (faces_insightface cv i d se rest s' (acc @ [fd])) = Inr matches"
    by (simp only: step)
  from Cons.IH [OF r Cons.prems(2)] obtain new where
    new: "matches = (acc @ [fd]) @ new"
      "map (outcome_insightface cv (s' ! i) se) rest = map Inr new"
    by blast
  have "matches = acc @ (fd # new) \<and>
      map (outcome_insightface cv (s ! i) se) (face # rest) = map Inr (fd # new)"
    using new o by (simp add: si)
  then show ?case by (intro exI)
qed

lemma faces_insightface_returns:
  assumes "\<forall>face \<in> set faces. \<exists>m. match_insightface (face_embedding face) se = Inr m"
  shows "\<exists>matches. snd (faces_insightface cv i d se faces s acc) = Inr matches"
  using assms
proof (induction faces arbitrary: s acc)
  case Nil
  show ?case by simp
next
  case (Cons face rest)
  obtain b0 b1 b2 b3 where b: "bbox_astype_int (face_bbox face) = (b0, b1, b2, b3)"
    by (cases "bbox_astype_int (face_bbox face)") auto
  from Cons.prems obtain match where
    m: "match_insightface (face_embedding face) se = Inr match" by auto
  from Cons.prems have rest:
    "\<forall>face \<in> set rest. \<exists>m. match_insightface (face_embedding face) se = Inr m" by simp
  show ?case
    unfolding faces_insightface.simps b prod.case m sum.case Let_def
    by (rule Cons.IH [OF rest])
qed

lemma faces_opencv_outcomes:
  assumes "i \<noteq> d"
  shows "snd (faces_opencv cv i d se faces s acc)
     = Inr (acc @ map (outcome_opencv cv (s ! i) se) faces)"
  using assms
proof (induction faces arbitrary: s acc)
  case Nil
  show ?case by simp
next
  case (Cons face rest)
  obtain x y w h where f: "face = (x, y, w, h)" by (cases face) auto
  define match where
    "match = match_opencv (fallback_embedding cv (cv_slice cv (s ! i) y (y + h) x (x + w))) se"
  define s' where
    "s' = rectangle_inplace cv s d (x, y) (x + w, y + h) (color_of match) 2"
  define fd where "fd = make_face_data [x, y, x + w, y + h] match
      (encode_image_to_base64 cv (cv_slice cv (s ! i) y (y + h) x (x + w)))"
  have step: "faces_opencv cv i d se (face # rest) s acc
      = faces_opencv cv i d se rest s' (acc @ [fd])"
    by (simp add: f Let_def s'_def fd_def match_def)
  have si: "s' ! i = s ! i" using Cons.prems by (simp add: s'_def rectangle_inplace_def)
  have o: "outcome_opencv cv (s ! i) se face = fd"
    by (simp add: outcome_opencv_def f fd_def match_def region_opencv_def
        make_face_data_outcome)
  from Cons.IH [OF Cons.prems, of s' "acc @ [fd]"] show ?case
    by (simp add: step si o)
qed


lemma detect_insightface_outcomes:
  assumes r: "snd (detect_face_realtime cv (InsightFace g) s i se) = Inr (d, matches)"
    and v: "i < length s"
  shows "map (outcome_insightface cv (s ! i) se) (g (s ! i)) = map Inr matches"
proof -
  let ?R = "faces_insightface cv i (length s) se (g ((s @ [s ! i]) ! i)) (s @ [s ! i]) []"
  from r have r': "snd ?R = Inr matches"
    by (auto simp: detect_insightface_snd split: sum.splits)
  from v have ne: "i \<noteq> length s" by simp
  from v have si: "(s @ [s ! i]) ! i = s ! i" by (simp add: nth_append)
  from faces_insightface_outcomes [OF r' ne] obtain new where
    "matches = [] @ new"
    "map (outcome_insightface cv ((s @ [s ! i]) ! i) se) (g ((s @ [s ! i]) ! i)) = map Inr new"
    by blast
  then show ?thesis by (simp add: si)
qed

lemma detect_insightface_returns:
  assumes v: "i < length s"
    and ok: "\<forall>face \<in> set (g (s ! i)). \<exists>m. match_insightface (face_embedding face) se = Inr m"
  shows "\<exists>matches. snd (detect_face_realtime cv (InsightFace g) s i se)
           = Inr (length s, matches)"
proof -
  from v have si: "(s @ [s ! i]) ! i = s ! i" by (simp add: nth_append)
  from ok have ok': "\<forall>face \<in> set (g ((s @ [s ! i]) ! i)).
      \<exists>m. match_insightface (face_embedding face) se = Inr m"
    by (simp only: si)
  from faces_insightface_returns [OF ok', of cv i "length s" "s @ [s ! i]" "[]"]
  obtain matches where
    "snd (faces_insightface cv i (length s) se (g ((s @ [s ! i]) ! i)) (s @ [s ! i]) [])
       = Inr matches"
    by blast
  then have "snd (detect_face_realtime cv (InsightFace g) s i se) = Inr (length s, matches)"
    by (simp add: detect_insightface_snd)
  then show ?thesis by (intro exI)
qed

lemma detect_opencv_outcomes:
  assumes v: "i < length s"
  shows "snd (detect_face_realtime cv (OpenCV dm) s i se)
     = Inr (length s, map (outcome_opencv cv (s ! i) se) (dm (cv_cvtColor_gray cv (s ! i))))"
proof -
  from v have ne: "i \<noteq> length s" by simp
  from v have si: "(s @ [s ! i]) ! i = s ! i" by (simp add: nth_append)
  from faces_opencv_outcomes [OF ne, of cv se
      "dm (cv_cvtColor_gray cv ((s @ [s ! i]) ! i))" "s @ [s ! i]" "[]"]
  show ?thesis by (simp add: detect_opencv_snd si)
qed

section \<open>The caller's frame\<close>

text \<open>
  C8. For a valid reference \<open>image_ref\<close>, the call leaves the frame behind \<open>image_ref\<close>, and
  every frame that was in the store, as it was, whether or not the call raises; it
  allocates exactly one new frame. When the call returns \<open>(display_image, matches)\<close>, the
  reference \<open>display_image\<close> is the new one, different from \<open>image_ref\<close>; \<open>matches\<close> holds,
  in the order of detection, the outcome of every face that the detector found in the
  input frame (its region, the decision of the gallery scan, identity, confidence and
  crop); and the frame behind \<open>display_image\<close> is the input frame with one marker per
  outcome at its region, green \<open>(0, 255, 0)\<close> for a recognized face and red \<open>(0, 0, 255)\<close>
  for an unrecognized one. The two colours differ. The OpenCV branch always returns; the
  InsightFace branch returns whenever the gallery scan raises for no detected face.
\<close>

theorem markers_on_copy_only:
  "image_ref < length s \<longrightarrow>
     fst (detect_face_realtime cv self s image_ref se) ! image_ref = s ! image_ref
     \<and> (\<forall>a < length s. fst (detect_face_realtime cv self s image_ref se) ! a = s ! a)
     \<and> length (fst (detect_face_realtime cv self s image_ref se)) = Suc (length s)
     \<and> (snd (detect_face_realtime cv self s image_ref se) = Inr (d, matches) \<longrightarrow>
          d = length s \<and> d \<noteq> image_ref \<and>
          (case self of
             InsightFace g \<Rightarrow>
               map (outcome_insightface cv (s ! image_ref) se) (g (s ! image_ref))
                 = map Inr matches
           | OpenCV dm \<Rightarrow>
               matches = map (outcome_opencv cv (s ! image_ref) se)
                           (dm (cv_cvtColor_gray cv (s ! image_ref)))) \<and>
          fst (detect_face_realtime cv self s image_ref se) ! d =
            (case self of
               InsightFace g \<Rightarrow> draw_markers_insightface cv (s ! image_ref) matches
             | OpenCV dm \<Rightarrow> draw_markers_opencv cv (s ! image_ref) matches))
     \<and> ((\<forall>face \<in> set (g (s ! image_ref)).
            \<exists>m. match_insightface (face_embedding face) se = Inr m) \<longrightarrow>
          (\<exists>ms. snd (detect_face_realtime cv (InsightFace g) s image_ref se) = Inr (length s, ms)))
     \<and> (\<exists>ms. snd (detect_face_realtime cv (OpenCV dm) s image_ref se) = Inr (length s, ms))
     \<and> marker_color True \<noteq> marker_color False"
proof (intro impI conjI)
  assume v: "image_ref < length s"
  from detect_store [of cv self s image_ref se]
  show all: "\<forall>a < length s. fst (detect_face_realtime cv self s image_ref se) ! a = s ! a"
    by (rule conjunct2)
  from all v show "fst (detect_face_realtime cv self s image_ref se) ! image_ref = s ! image_ref"
    by blast
  from detect_store [of cv self s image_ref se]
  show "length (fst (detect_face_realtime cv self s image_ref se)) = Suc (length s)"
    by (rule conjunct1)
  show "marker_color True \<noteq> marker_color False" by (rule marker_colors_distinct)
  from detect_opencv_outcomes [OF v, of cv dm se]
  show "\<exists>ms. snd (detect_face_realtime cv (OpenCV dm) s image_ref se) = Inr (length s, ms)"
    by (intro exI)
next
  assume v: "image_ref < length s"
    and ok: "\<forall>face \<in> set (g (s ! image_ref)).
            \<exists>m. match_insightface (face_embedding face) se = Inr m"
  from v ok show "\<exists>ms. snd (detect_face_realtime cv (InsightFace g) s image_ref se) = Inr (length s, ms)"
    by (rule detect_insightface_returns)
next
  assume v: "image_ref < length s"
    and r: "snd (detect_face_realtime cv self s image_ref se) = Inr (d, matches)"
  have *: "d = length s \<and>
          (case self of
             InsightFace g \<Rightarrow>
               map (outcome_insightface cv (s ! image_ref) se) (g (s ! image_ref))
                 = map Inr matches
           | OpenCV dm \<Rightarrow>
               matches = map (outcome_opencv cv (s ! image_ref) se)
                           (dm (cv_cvtColor_gray cv (s ! image_ref)))) \<and>
          fst (detect_face_realtime cv self s image_ref se) ! d =
            (case self of
               InsightFace g \<Rightarrow> draw_markers_insightface cv (s ! image_ref) matches
             | OpenCV dm \<Rightarrow> draw_markers_opencv cv (s ! image_ref) matches)"
  proof (cases self)
    case (InsightFace g')
    from r have r': "snd (detect_face_realtime cv (InsightFace g') s image_ref se)
        = Inr (d, matches)"
      by (simp only: InsightFace)
    from detect_insightface_annotated [OF r']
    have a: "d = length s"
      and b: "fst (detect_face_realtime cv (InsightFace g') s image_ref se) ! d
        = draw_markers_insightface cv (s ! image_ref) matches"
      by blast+
    note c = detect_insightface_outcomes [OF r' v]
    show ?thesis unfolding InsightFace face_processor.case using a c b by (intro conjI)
  next
    case (OpenCV dm')
    from detect_opencv_annotated [of cv dm' s image_ref se] obtain matches' where
      m: "snd (detect_face_realtime cv (OpenCV dm') s image_ref se) = Inr (length s, matches')"
        "fst (detect_face_realtime cv (OpenCV dm') s image_ref se) ! length s
           = draw_markers_opencv cv (s ! image_ref) matches'"
      by blast
    from r m(1) OpenCV have a: "d = length s" and e: "matches = matches'" by simp_all
    from r detect_opencv_outcomes [OF v, of cv dm' se] OpenCV
    have c: "matches = map (outcome_opencv cv (s ! image_ref) se)
                           (dm' (cv_cvtColor_gray cv (s ! image_ref)))"
      by simp
    from m(2) a e
    have b: "fst (detect_face_realtime cv (OpenCV dm') s image_ref se) ! d
           = draw_markers_opencv cv (s ! image_ref) matches"
      by simp
    show ?thesis unfolding OpenCV face_processor.case using a c b by (intro conjI)
  qed
  from * show "d = length s" by (rule conjunct1)
  with v show "d \<noteq> image_ref" by simp
  from * show "case self of
             InsightFace g \<Rightarrow>
               map (outcome_insightface cv (s ! image_ref) se) (g (s ! image_ref))
                 = map Inr matches
           | OpenCV dm \<Rightarrow>
               matches = map (outcome_opencv cv (s ! image_ref) se)
                           (dm (cv_cvtColor_gray cv (s ! image_ref)))"
    by (rule conjunct1 [OF conjunct2])
  from * show "fst (detect_face_realtime cv self s image_ref se) ! d =
            (case self of
               InsightFace g \<Rightarrow> draw_markers_insightface cv (s ! image_ref) matches
             | OpenCV dm \<Rightarrow> draw_markers_opencv cv (s ! image_ref) matches)"
    by (rule conjunct2 [OF conjunct2])
qed


text \<open>
  The OpenCV branch on one frame with two faces, both matching the registered
  embedding: two green markers on the copy.
\<close>

lemma toy_embedding: "fallback_embedding toy_cv i = [1, 0]"
  by (simp add: fallback_embedding_def toy_cv_def)

lemma toy_detect_opencv:
  "detect_face_realtime toy_cv
        (OpenCV (\<lambda>i. [(10, 20, 100, 200), (600, 400, 100, 100)]))
        ([[]] :: toy_image store) 0 (Some [(''u1'', ''Ann'', [1, 0])])
   = ([[], [((10, 20), (110, 220), (0, 255, 0)), ((600, 400), (700, 500), (0, 255, 0))]],
      Inr (1, [\<lparr>fd_bbox = [10, 20, 110, 220], fd_match = Some ''Ann'', fd_user_id = Some ''u1'',
           fd_confidence = Fin 1, fd_recognized = True, fd_face_image = None\<rparr>,
         \<lparr>fd_bbox = [600, 400, 700, 500], fd_match = Some ''Ann'', fd_user_id = Some ''u1'',
           fd_confidence = Fin 1, fd_recognized = True, fd_face_image = None\<rparr>]))"
  by (simp add: detect_face_realtime_def np_copy_def toy_embedding match_opencv_def
      dist_same threshold_opencv_def rectangle_inplace_def color_of_def make_face_data_def
      Let_def)
    (simp add: toy_cv_def)

theorem markers_on_copy_only_witness:
  "(0 :: nat) < length ([[]] :: toy_image store)
   \<and> snd (detect_face_realtime toy_cv
        (InsightFace (\<lambda>i. [\<lparr>face_bbox = (10, 20, 110, 220), face_embedding = [1, 0]\<rparr>,
          \<lparr>face_bbox = (- 11 / 2, 30, 700, 500), face_embedding = [0, 1]\<rparr>]))
        ([[]] :: toy_image store) 0 (Some [(''u1'', ''Ann'', [1, 0])])) = Inr (1, [\<lparr>fd_bbox = [10, 20, 110, 220], fd_match = Some ''Ann'', fd_user_id = Some ''u1'',
           fd_confidence = Fin 1, fd_recognized = True, fd_face_image = None\<rparr>,
         \<lparr>fd_bbox = [- 5, 30, 700, 500], fd_match = None, fd_user_id = None,
           fd_confidence = Fin 0, fd_recognized = False, fd_face_image = None\<rparr>])
   \<and> fst (detect_face_realtime toy_cv
        (InsightFace (\<lambda>i. [\<lparr>face_bbox = (10, 20, 110, 220), face_embedding = [1, 0]\<rparr>,
          \<lparr>face_bbox = (- 11 / 2, 30, 700, 500), face_embedding = [0, 1]\<rparr>]))
        ([[]] :: toy_image store) 0 (Some [(''u1'', ''Ann'', [1, 0])])) ! 0 = ([[]] :: toy_image store) ! 0
   \<and> length (fst (detect_face_realtime toy_cv
        (InsightFace (\<lambda>i. [\<lparr>face_bbox = (10, 20, 110, 220), face_embedding = [1, 0]\<rparr>,
          \<lparr>face_bbox = (- 11 / 2, 30, 700, 500), face_embedding = [0, 1]\<rparr>]))
        ([[]] :: toy_image store) 0 (Some [(''u1'', ''Ann'', [1, 0])]))) = Suc (length ([[]] :: toy_image store))
   \<and> (1 :: nat) = length ([[]] :: toy_image store)
   \<and> (1 :: nat) \<noteq> 0
   \<and> map (outcome_insightface toy_cv (([[]] :: toy_image store) ! 0) (Some [(''u1'', ''Ann'', [1, 0])]))
        ((\<lambda>i. [\<lparr>face_bbox = (10, 20, 110, 220), face_embedding = [1, 0]\<rparr>,
          \<lparr>face_bbox = (- 11 / 2, 30, 700, 500), face_embedding = [0, 1]\<rparr>]) (([[]] :: toy_image store) ! 0))
      = map Inr [\<lparr>fd_bbox = [10, 20, 110, 220], fd_match = Some ''Ann'', fd_user_id = Some ''u1'',
           fd_confidence = Fin 1, fd_recognized = True, fd_face_image = None\<rparr>,
         \<lparr>fd_bbox = [- 5, 30, 700, 500], fd_match = None, fd_user_id = None,
           fd_confidence = Fin 0, fd_recognized = False, fd_face_image = None\<rparr>]
   \<and> fst (detect_face_realtime toy_cv
        (InsightFace (\<lambda>i. [\<lparr>face_bbox = (10, 20, 110, 220), face_embedding = [1, 0]\<rparr>,
          \<lparr>face_bbox = (- 11 / 2, 30, 700, 500), face_embedding = [0, 1]\<rparr>]))
        ([[]] :: toy_image store) 0 (Some [(''u1'', ''Ann'', [1, 0])])) ! 1
       = draw_markers_insightface toy_cv (([[]] :: toy_image store) ! 0) [\<lparr>fd_bbox = [10, 20, 110, 220], fd_match = Some ''Ann'', fd_user_id = Some ''u1'',
           fd_confidence = Fin 1, fd_recognized = True, fd_face_image = None\<rparr>,
         \<lparr>fd_bbox = [- 5, 30, 700, 500], fd_match = None, fd_user_id = None,
           fd_confidence = Fin 0, fd_recognized = False, fd_face_image = None\<rparr>]
   \<and> (\<exists>ms. snd (detect_face_realtime toy_cv
        (InsightFace (\<lambda>i. [\<lparr>face_bbox = (10, 20, 110, 220), face_embedding = [1, 0]\<rparr>,
          \<lparr>face_bbox = (- 11 / 2, 30, 700, 500), face_embedding = [0, 1]\<rparr>]))
        ([[]] :: toy_image store) 0 (Some [(''u1'', ''Ann'', [1, 0])])) = Inr (length ([[]] :: toy_image store), ms))
   \<and> (\<exists>ms. snd (detect_face_realtime toy_cv
        (OpenCV (\<lambda>i. [(10, 20, 100, 200), (600, 400, 100, 100)]))
        ([[]] :: toy_image store) 0 (Some [(''u1'', ''Ann'', [1, 0])])) = Inr (length ([[]] :: toy_image store), ms))
   \<and> marker_color True \<noteq> marker_color False
   \<and> snd (detect_face_realtime toy_cv
        (OpenCV (\<lambda>i. [(10, 20, 100, 200), (600, 400, 100, 100)]))
        ([[]] :: toy_image store) 0 (Some [(''u1'', ''Ann'', [1, 0])])) = Inr (1, [\<lparr>fd_bbox = [10, 20, 110, 220], fd_match = Some ''Ann'', fd_user_id = Some ''u1'',
           fd_confidence = Fin 1, fd_recognized = True, fd_face_image = None\<rparr>,
         \<lparr>fd_bbox = [600, 400, 700, 500], fd_match = Some ''Ann'', fd_user_id = Some ''u1'',
           fd_confidence = Fin 1, fd_recognized = True, fd_face_image = None\<rparr>])
   \<and> fst (detect_face_realtime toy_cv
        (OpenCV (\<lambda>i. [(10, 20, 100, 200), (600, 400, 100, 100)]))
        ([[]] :: toy_image store) 0 (Some [(''u1'', ''Ann'', [1, 0])])) ! 0 = ([[]] :: toy_image store) ! 0
   \<and> [\<lparr>fd_bbox = [10, 20, 110, 220], fd_match = Some ''Ann'', fd_user_id = Some ''u1'',
           fd_confidence = Fin 1, fd_recognized = True, fd_face_image = None\<rparr>,
         \<lparr>fd_bbox = [600, 400, 700, 500], fd_match = Some ''Ann'', fd_user_id = Some ''u1'',
           fd_confidence = Fin 1, fd_recognized = True, fd_face_image = None\<rparr>]
      = map (outcome_opencv toy_cv (([[]] :: toy_image store) ! 0) (Some [(''u1'', ''Ann'', [1, 0])]))
          ((\<lambda>i. [(10, 20, 100, 200), (600, 400, 100, 100)]) (cv_cvtColor_gray toy_cv (([[]] :: toy_image store) ! 0)))
   \<and> fst (detect_face_realtime toy_cv
        (OpenCV (\<lambda>i. [(10, 20, 100, 200), (600, 400, 100, 100)]))
        ([[]] :: toy_image store) 0 (Some [(''u1'', ''Ann'', [1, 0])])) ! 1
       = draw_markers_opencv toy_cv (([[]] :: toy_image store) ! 0) [\<lparr>fd_bbox = [10, 20, 110, 220], fd_match = Some ''Ann'', fd_user_id = Some ''u1'',
           fd_confidence = Fin 1, fd_recognized = True, fd_face_image = None\<rparr>,
         \<lparr>fd_bbox = [600, 400, 700, 500], fd_match = Some ''Ann'', fd_user_id = Some ''u1'',
           fd_confidence = Fin 1, fd_recognized = True, fd_face_image = None\<rparr>]
   \<and> fst (detect_face_realtime toy_cv
        (InsightFace (\<lambda>i. [\<lparr>face_bbox = (10, 20, 110, 220), face_embedding = [1, 0]\<rparr>,
          \<lparr>face_bbox = (- 11 / 2, 30, 700, 500), face_embedding = [0, 1]\<rparr>]))
        ([[]] :: toy_image store) 0 (Some [(''u1'', ''Ann'', [1, 0])])) ! 0 = []
   \<and> fst (detect_face_realtime toy_cv
        (InsightFace (\<lambda>i. [\<lparr>face_bbox = (10, 20, 110, 220), face_embedding = [1, 0]\<rparr>,
          \<lparr>face_bbox = (- 11 / 2, 30, 700, 500), face_embedding = [0, 1]\<rparr>]))
        ([[]] :: toy_image store) 0 (Some [(''u1'', ''Ann'', [1, 0])])) ! 1
       = [((10, 20), (110, 220), (0, 255, 0)), ((0, 30), (640, 480), (0, 0, 255))]
   \<and> fst (detect_face_realtime toy_cv
        (OpenCV (\<lambda>i. [(10, 20, 100, 200), (600, 400, 100, 100)]))
        ([[]] :: toy_image store) 0 (Some [(''u1'', ''Ann'', [1, 0])])) ! 1
       = [((10, 20), (110, 220), (0, 255, 0)), ((600, 400), (700, 500), (0, 255, 0))]"
proof -
  have h0: "(0 :: nat) < length ([[]] :: toy_image store)" by simp
  have h1: "snd (detect_face_realtime toy_cv
        (InsightFace (\<lambda>i. [\<lparr>face_bbox = (10, 20, 110, 220), face_embedding = [1, 0]\<rparr>,
          \<lparr>face_bbox = (- 11 / 2, 30, 700, 500), face_embedding = [0, 1]\<rparr>]))
        ([[]] :: toy_image store) 0 (Some [(''u1'', ''Ann'', [1, 0])])) = Inr (1, [\<lparr>fd_bbox = [10, 20, 110, 220], fd_match = Some ''Ann'', fd_user_id = Some ''u1'',
           fd_confidence = Fin 1, fd_recognized = True, fd_face_image = None\<rparr>,
         \<lparr>fd_bbox = [- 5, 30, 700, 500], fd_match = None, fd_user_id = None,
           fd_confidence = Fin 0, fd_recognized = False, fd_face_image = None\<rparr>])"
    by (simp only: toy_detect_insightface toy_detect_opencv fst_conv snd_conv; simp)
  have h2: "snd (detect_face_realtime toy_cv
        (OpenCV (\<lambda>i. [(10, 20, 100, 200), (600, 400, 100, 100)]))
        ([[]] :: toy_image store) 0 (Some [(''u1'', ''Ann'', [1, 0])])) = Inr (1, [\<lparr>fd_bbox = [10, 20, 110, 220], fd_match = Some ''Ann'', fd_user_id = Some ''u1'',
           fd_confidence = Fin 1, fd_recognized = True, fd_face_image = None\<rparr>,
         \<lparr>fd_bbox = [600, 400, 700, 500], fd_match = Some ''Ann'', fd_user_id = Some ''u1'',
           fd_confidence = Fin 1, fd_recognized = True, fd_face_image = None\<rparr>])"
    by (simp only: toy_detect_insightface toy_detect_opencv fst_conv snd_conv; simp)
  have e0: "fst (detect_face_realtime toy_cv
        (InsightFace (\<lambda>i. [\<lparr>face_bbox = (10, 20, 110, 220), face_embedding = [1, 0]\<rparr>,
          \<lparr>face_bbox = (- 11 / 2, 30, 700, 500), face_embedding = [0, 1]\<rparr>]))
        ([[]] :: toy_image store) 0 (Some [(''u1'', ''Ann'', [1, 0])])) ! 0 = []"
    by (simp only: toy_detect_insightface toy_detect_opencv fst_conv snd_conv; simp)
  have e1: "fst (detect_face_realtime toy_cv
        (InsightFace (\<lambda>i. [\<lparr>face_bbox = (10, 20, 110, 220), face_embedding = [1, 0]\<rparr>,
          \<lparr>face_bbox = (- 11 / 2, 30, 700, 500), face_embedding = [0, 1]\<rparr>]))
        ([[]] :: toy_image store) 0 (Some [(''u1'', ''Ann'', [1, 0])])) ! 1
       = [((10, 20), (110, 220), (0, 255, 0)), ((0, 30), (640, 480), (0, 0, 255))]"
    by (simp only: toy_detect_insightface toy_detect_opencv fst_conv snd_conv; simp)
  have e2: "fst (detect_face_realtime toy_cv
        (OpenCV (\<lambda>i. [(10, 20, 100, 200), (600, 400, 100, 100)]))
        ([[]] :: toy_image store) 0 (Some [(''u1'', ''Ann'', [1, 0])])) ! 1
       = [((10, 20), (110, 220), (0, 255, 0)), ((600, 400), (700, 500), (0, 255, 0))]"
    by (simp only: toy_detect_insightface toy_detect_opencv fst_conv snd_conv; simp)
  have hR: "\<forall>face \<in> set ((\<lambda>i. [\<lparr>face_bbox = (10, 20, 110, 220), face_embedding = [1, 0]\<rparr>,
          \<lparr>face_bbox = (- 11 / 2, 30, 700, 500), face_embedding = [0, 1]\<rparr>]) (([[]] :: toy_image store) ! 0)).
      \<exists>m. match_insightface (face_embedding face) (Some [(''u1'', ''Ann'', [1, 0])]) = Inr m"
    by (simp add: match_insightface_def cos_unit cos_orthogonal threshold_insightface_def)
  note t = mp [OF markers_on_copy_only
      [where image_ref = 0 and s = "[[]]" and cv = toy_cv
        and self = "InsightFace (\<lambda>i. [\<lparr>face_bbox = (10, 20, 110, 220), face_embedding = [1, 0]\<rparr>,
          \<lparr>face_bbox = (- 11 / 2, 30, 700, 500), face_embedding = [0, 1]\<rparr>])"
        and g = "(\<lambda>i. [\<lparr>face_bbox = (10, 20, 110, 220), face_embedding = [1, 0]\<rparr>,
          \<lparr>face_bbox = (- 11 / 2, 30, 700, 500), face_embedding = [0, 1]\<rparr>])"
        and dm = "(\<lambda>i. [(10, 20, 100, 200), (600, 400, 100, 100)])"
        and se = "Some [(''u1'', ''Ann'', [1, 0])]" and d = 1
        and matches = "[\<lparr>fd_bbox = [10, 20, 110, 220], fd_match = Some ''Ann'', fd_user_id = Some ''u1'',
           fd_confidence = Fin 1, fd_recognized = True, fd_face_image = None\<rparr>,
         \<lparr>fd_bbox = [- 5, 30, 700, 500], fd_match = None, fd_user_id = None,
           fd_confidence = Fin 0, fd_recognized = False, fd_face_image = None\<rparr>]"] h0]
  note t2 = mp [OF markers_on_copy_only
      [where image_ref = 0 and s = "[[]]" and cv = toy_cv
        and self = "OpenCV (\<lambda>i. [(10, 20, 100, 200), (600, 400, 100, 100)])"
        and g = "(\<lambda>i. [\<lparr>face_bbox = (10, 20, 110, 220), face_embedding = [1, 0]\<rparr>,
          \<lparr>face_bbox = (- 11 / 2, 30, 700, 500), face_embedding = [0, 1]\<rparr>])"
        and dm = "(\<lambda>i. [(10, 20, 100, 200), (600, 400, 100, 100)])"
        and se = "Some [(''u1'', ''Ann'', [1, 0])]" and d = 1
        and matches = "[\<lparr>fd_bbox = [10, 20, 110, 220], fd_match = Some ''Ann'', fd_user_id = Some ''u1'',
           fd_confidence = Fin 1, fd_recognized = True, fd_face_image = None\<rparr>,
         \<lparr>fd_bbox = [600, 400, 700, 500], fd_match = Some ''Ann'', fd_user_id = Some ''u1'',
           fd_confidence = Fin 1, fd_recognized = True, fd_face_image = None\<rparr>]"] h0]
  from t have c1: "fst (detect_face_realtime toy_cv
        (InsightFace (\<lambda>i. [\<lparr>face_bbox = (10, 20, 110, 220), face_embedding = [1, 0]\<rparr>,
          \<lparr>face_bbox = (- 11 / 2, 30, 700, 500), face_embedding = [0, 1]\<rparr>]))
        ([[]] :: toy_image store) 0 (Some [(''u1'', ''Ann'', [1, 0])])) ! 0 = ([[]] :: toy_image store) ! 0"
    by (rule conjunct1)
  from t have c2: "length (fst (detect_face_realtime toy_cv
        (InsightFace (\<lambda>i. [\<lparr>face_bbox = (10, 20, 110, 220), face_embedding = [1, 0]\<rparr>,
          \<lparr>face_bbox = (- 11 / 2, 30, 700, 500), face_embedding = [0, 1]\<rparr>]))
        ([[]] :: toy_image store) 0 (Some [(''u1'', ''Ann'', [1, 0])]))) = Suc (length ([[]] :: toy_image store))"
    by (rule conjunct1 [OF conjunct2 [OF conjunct2]])
  note u = mp [OF conjunct1 [OF conjunct2 [OF conjunct2 [OF conjunct2 [OF t]]]] h1]
  from u have c3: "(1 :: nat) = length ([[]] :: toy_image store)" by (rule conjunct1)
  from u have c4: "(1 :: nat) \<noteq> 0" by (rule conjunct1 [OF conjunct2])
  have c5: "map (outcome_insightface toy_cv (([[]] :: toy_image store) ! 0) (Some [(''u1'', ''Ann'', [1, 0])]))
        ((\<lambda>i. [\<lparr>face_bbox = (10, 20, 110, 220), face_embedding = [1, 0]\<rparr>,
          \<lparr>face_bbox = (- 11 / 2, 30, 700, 500), face_embedding = [0, 1]\<rparr>]) (([[]] :: toy_image store) ! 0))
      = map Inr [\<lparr>fd_bbox = [10, 20, 110, 220], fd_match = Some ''Ann'', fd_user_id = Some ''u1'',
           fd_confidence = Fin 1, fd_recognized = True, fd_face_image = None\<rparr>,
         \<lparr>fd_bbox = [- 5, 30, 700, 500], fd_match = None, fd_user_id = None,
           fd_confidence = Fin 0, fd_recognized = False, fd_face_image = None\<rparr>]"
    using conjunct1 [OF conjunct2 [OF conjunct2 [OF u]]]
    by (simp only: face_processor.case)
  have c6: "fst (detect_face_realtime toy_cv
        (InsightFace (\<lambda>i. [\<lparr>face_bbox = (10, 20, 110, 220), face_embedding = [1, 0]\<rparr>,
          \<lparr>face_bbox = (- 11 / 2, 30, 700, 500), face_embedding = [0, 1]\<rparr>]))
        ([[]] :: toy_image store) 0 (Some [(''u1'', ''Ann'', [1, 0])])) ! 1
       = draw_markers_insightface toy_cv (([[]] :: toy_image store) ! 0) [\<lparr>fd_bbox = [10, 20, 110, 220], fd_match = Some ''Ann'', fd_user_id = Some ''u1'',
           fd_confidence = Fin 1, fd_recognized = True, fd_face_image = None\<rparr>,
         \<lparr>fd_bbox = [- 5, 30, 700, 500], fd_match = None, fd_user_id = None,
           fd_confidence = Fin 0, fd_recognized = False, fd_face_image = None\<rparr>]"
    using conjunct2 [OF conjunct2 [OF conjunct2 [OF u]]]
    by (simp only: face_processor.case)
  note r = conjunct2 [OF conjunct2 [OF conjunct2 [OF conjunct2 [OF t]]]]
  have c7: "(\<exists>ms. snd (detect_face_realtime toy_cv
        (InsightFace (\<lambda>i. [\<lparr>face_bbox = (10, 20, 110, 220), face_embedding = [1, 0]\<rparr>,
          \<lparr>face_bbox = (- 11 / 2, 30, 700, 500), face_embedding = [0, 1]\<rparr>]))
        ([[]] :: toy_image store) 0 (Some [(''u1'', ''Ann'', [1, 0])])) = Inr (length ([[]] :: toy_image store), ms))"
    by (rule mp [OF conjunct1 [OF r] hR])
  have c8: "(\<exists>ms. snd (detect_face_realtime toy_cv
        (OpenCV (\<lambda>i. [(10, 20, 100, 200), (600, 400, 100, 100)]))
        ([[]] :: toy_image store) 0 (Some [(''u1'', ''Ann'', [1, 0])])) = Inr (length ([[]] :: toy_image store), ms))"
    by (rule conjunct1 [OF conjunct2 [OF r]])
  have c9: "marker_color True \<noteq> marker_color False"
    by (rule conjunct2 [OF conjunct2 [OF r]])
  from t2 have d1: "fst (detect_face_realtime toy_cv
        (OpenCV (\<lambda>i. [(10, 20, 100, 200), (600, 400, 100, 100)]))
        ([[]] :: toy_image store) 0 (Some [(''u1'', ''Ann'', [1, 0])])) ! 0 = ([[]] :: toy_image store) ! 0"
    by (rule conjunct1)
  note u2 = mp [OF conjunct1 [OF conjunct2 [OF conjunct2 [OF conjunct2 [OF t2]]]] h2]
  have d5: "[\<lparr>fd_bbox = [10, 20, 110, 220], fd_match = Some ''Ann'', fd_user_id = Some ''u1'',
           fd_confidence = Fin 1, fd_recognized = True, fd_face_image = None\<rparr>,
         \<lparr>fd_bbox = [600, 400, 700, 500], fd_match = Some ''Ann'', fd_user_id = Some ''u1'',
           fd_confidence = Fin 1, fd_recognized = True, fd_face_image = None\<rparr>]
      = map (outcome_opencv toy_cv (([[]] :: toy_image store) ! 0) (Some [(''u1'', ''Ann'', [1, 0])]))
          ((\<lambda>i. [(10, 20, 100, 200), (600, 400, 100, 100)]) (cv_cvtColor_gray toy_cv (([[]] :: toy_image store) ! 0)))"
    using conjunct1 [OF conjunct2 [OF conjunct2 [OF u2]]]
    by (simp only: face_processor.case)
  have d6: "fst (detect_face_realtime toy_cv
        (OpenCV (\<lambda>i. [(10, 20, 100, 200), (600, 400, 100, 100)]))
        ([[]] :: toy_image store) 0 (Some [(''u1'', ''Ann'', [1, 0])])) ! 1
       = draw_markers_opencv toy_cv (([[]] :: toy_image store) ! 0) [\<lparr>fd_bbox = [10, 20, 110, 220], fd_match = Some ''Ann'', fd_user_id = Some ''u1'',
           fd_confidence = Fin 1, fd_recognized = True, fd_face_image = None\<rparr>,
         \<lparr>fd_bbox = [600, 400, 700, 500], fd_match = Some ''Ann'', fd_user_id = Some ''u1'',
           fd_confidence = Fin 1, fd_recognized = True, fd_face_image = None\<rparr>]"
    using conjunct2 [OF conjunct2 [OF conjunct2 [OF u2]]]
    by (simp only: face_processor.case)
  from h0 h1 c1 c2 c3 c4 c5 c6 c7 c8 c9 h2 d1 d5 d6 e0 e1 e2 show ?thesis by (intro conjI)
qed

section \<open>No face in the frame\<close>

text \<open>
  C9. When the detector finds no face, \<open>get_face_embedding\<close> returns, without an exception,
  \<open>(None, None, False, "No face detected in the image")\<close>; and \<open>detect_face_realtime\<close>, on a
  valid reference, returns the empty list of outcomes with a new frame whose contents are
  those of the input frame, the input frame being left in place. This holds for both
  backends.
\<close>

theorem no_faces_detected:
  "(face_app_get img = [] \<longrightarrow>
      get_face_embedding cv (InsightFace face_app_get) img
        = Inr (None, None, False, ''No face detected in the image''))
   \<and> (detectMultiScale (cv_cvtColor_gray cv img) = [] \<longrightarrow>
      get_face_embedding cv (OpenCV detectMultiScale) img
        = Inr (None, None, False, ''No face detected in the image''))
   \<and> (image_ref < length s \<longrightarrow> face_app_get (s ! image_ref) = [] \<longrightarrow>
      detect_face_realtime cv (InsightFace face_app_get) s image_ref se
        = (s @ [s ! image_ref], Inr (length s, [])))
   \<and> (image_ref < length s \<longrightarrow> detectMultiScale (cv_cvtColor_gray cv (s ! image_ref)) = [] \<longrightarrow>
      detect_face_realtime cv (OpenCV detectMultiScale) s image_ref se
        = (s @ [s ! image_ref], Inr (length s, [])))"
proof (intro conjI impI)
  assume "face_app_get img = []"
  then show "get_face_embedding cv (InsightFace face_app_get) img
        = Inr (None, None, False, ''No face detected in the image'')"
    by (simp add: get_face_embedding_def)
next
  assume "detectMultiScale (cv_cvtColor_gray cv img) = []"
  then show "get_face_embedding cv (OpenCV detectMultiScale) img
        = Inr (None, None, False, ''No face detected in the image'')"
    by (simp add: get_face_embedding_def)
next
  assume "image_ref < length s" "face_app_get (s ! image_ref) = []"
  then show "detect_face_realtime cv (InsightFace face_app_get) s image_ref se
        = (s @ [s ! image_ref], Inr (length s, []))"
    by (simp add: detect_face_realtime_def np_copy_def nth_append)
next
  assume "image_ref < length s" "detectMultiScale (cv_cvtColor_gray cv (s ! image_ref)) = []"
  then show "detect_face_realtime cv (OpenCV detectMultiScale) s image_ref se
        = (s @ [s ! image_ref], Inr (length s, []))"
    by (simp add: detect_face_realtime_def np_copy_def nth_append)
qed

theorem no_faces_detected_witness:
  "(\<lambda>i. []) ([] :: toy_image) = ([] :: if_face list)
   \<and> (\<lambda>i. []) (cv_cvtColor_gray toy_cv []) = ([] :: cv_face list)
   \<and> (0 :: nat) < length ([[]] :: toy_image store)
   \<and> get_face_embedding toy_cv (InsightFace (\<lambda>i. [])) []
        = Inr (None, None, False, ''No face detected in the image'')
   \<and> get_face_embedding toy_cv (OpenCV (\<lambda>i. [])) []
        = Inr (None, None, False, ''No face detected in the image'')
   \<and> detect_face_realtime toy_cv (InsightFace (\<lambda>i. [])) ([[]] :: toy_image store) 0 (Some [(''u1'', ''Ann'', [1, 0])])
        = ([[], []], Inr (1, []))
   \<and> detect_face_realtime toy_cv (OpenCV (\<lambda>i. [])) ([[]] :: toy_image store) 0 (Some [(''u1'', ''Ann'', [1, 0])])
        = ([[], []], Inr (1, []))"
proof -
  have h1: "(\<lambda>i. []) ([] :: toy_image) = ([] :: if_face list)" by simp
  have h2: "(\<lambda>i. []) (cv_cvtColor_gray toy_cv []) = ([] :: cv_face list)" by simp
  have h3: "(0 :: nat) < length ([[]] :: toy_image store)" by simp
  have h4: "(\<lambda>i. []) (([[]] :: toy_image store) ! 0) = ([] :: if_face list)" by simp
  have h5: "(\<lambda>i. []) (cv_cvtColor_gray toy_cv (([[]] :: toy_image store) ! 0)) = ([] :: cv_face list)" by simp
  note t = no_faces_detected
    [of "\<lambda>i. []" "[]" toy_cv "\<lambda>i. []" 0 "[[]]" "Some [(''u1'', ''Ann'', [1, 0])]"]
  from mp [OF conjunct1 [OF t] h1]
  have c1: "get_face_embedding toy_cv (InsightFace (\<lambda>i. [])) []
        = Inr (None, None, False, ''No face detected in the image'')" .
  from mp [OF conjunct1 [OF conjunct2 [OF t]] h2]
  have c2: "get_face_embedding toy_cv (OpenCV (\<lambda>i. [])) []
        = Inr (None, None, False, ''No face detected in the image'')" .
  from mp [OF mp [OF conjunct1 [OF conjunct2 [OF conjunct2 [OF t]]] h3] h4]
  have c3: "detect_face_realtime toy_cv (InsightFace (\<lambda>i. [])) ([[]] :: toy_image store) 0 (Some [(''u1'', ''Ann'', [1, 0])])
        = ([[], []], Inr (1, []))" by simp
  from mp [OF mp [OF conjunct2 [OF conjunct2 [OF conjunct2 [OF t]]] h3] h5]
  have c4: "detect_face_realtime toy_cv (OpenCV (\<lambda>i. [])) ([[]] :: toy_image store) 0 (Some [(''u1'', ''Ann'', [1, 0])])
        = ([[], []], Inr (1, []))" by simp
  from h1 h2 h3 c1 c2 c3 c4 show ?thesis by (intro conjI)
qed

end
